theory Spec2Isabelle
  imports Complex_Main "HOL-Library.Multiset" "HOL-Library.Sublist"
begin

section \<open>Python values and the dynamic operations the scripts use\<close>

text \<open>
  Both scripts work on dynamically typed payloads: boto3 responses in
  \<^verbatim>\<open>cloud-cost-analyzer.py\<close>, parsed YAML documents in
  \<^verbatim>\<open>infrastructure-validator.py\<close>. A payload is a \<open>pyval\<close>. A dictionary is an
  association list with string keys (the keys the scripts consult are all string literals); a
  lookup reads the first pair of a key. A float is carried as the rational number it denotes,
  a naive \<^verbatim>\<open>datetime\<close> as its number of microseconds, a string as the list of its
  characters.
\<close>

datatype pyval =
    PNone
  | PBool bool
  | PInt int
  | PFloat rat
  | PStr string
  | PDatetime int
  | PList "pyval list"
  | PDict "(string \<times> pyval) list"

text \<open>The exception classes that the two scripts can meet.\<close>

datatype pyexc =
    KeyError
  | TypeError
  | AttributeError
  | FileNotFoundError
  | PermissionError
  | UnicodeDecodeError
  | OverflowError
  | YAMLError
  | ClientError

text \<open>
  What Python itself computes and the model does not. They are parameters of the model.
  Text that only ends up inside messages: \<^verbatim>\<open>str()\<close> of a value that is not a string,
  \<^verbatim>\<open>repr\<close> of a float, the \<^verbatim>\<open>:.1f\<close> format and \<^verbatim>\<open>str(e)\<close> of an
  exception. Arithmetic that rounds and may raise: \<open>mean xs\<close> is
  \<^verbatim>\<open>sum(xs) / len(xs)\<close> and \<open>times v r\<close> is \<^verbatim>\<open>v * r\<close> for the float literal
  \<open>r\<close>, each the float that Python gets or the exception that it raises (for an operand
  that is no number, or an integer too large for a float).
\<close>

record pyfmt =
  str_val :: "pyval \<Rightarrow> string"
  repr_float :: "rat \<Rightarrow> string"
  format_1f :: "rat \<Rightarrow> string"
  str_exc :: "pyexc \<Rightarrow> string"
  mean :: "pyval list \<Rightarrow> pyexc + rat"
  times :: "pyval \<Rightarrow> rat \<Rightarrow> pyexc + rat"

definition py_str :: "pyfmt \<Rightarrow> pyval \<Rightarrow> string" where
  "py_str fmt v = (case v of PStr s \<Rightarrow> s | _ \<Rightarrow> str_val fmt v)"

definition bindE :: "'e + 'a \<Rightarrow> ('a \<Rightarrow> 'e + 'b) \<Rightarrow> 'e + 'b" where
  "bindE m f = (case m of Inl e \<Rightarrow> Inl e | Inr x \<Rightarrow> f x)"

text \<open>\<^verbatim>\<open>sub in s\<close> on two strings.\<close>

fun contains :: "string \<Rightarrow> string \<Rightarrow> bool" where
  "contains sub [] = (sub = [])"
| "contains sub (c # cs) = (prefix sub (c # cs) \<or> contains sub cs)"

text \<open>\<^verbatim>\<open>s.replace(old, new)\<close> for a non-empty \<open>old\<close>: leftmost matches, not overlapping.\<close>

fun replace :: "string \<Rightarrow> string \<Rightarrow> string \<Rightarrow> string" where
  "replace old new [] = []"
| "replace old new (c # cs) =
     (if old \<noteq> [] \<and> prefix old (c # cs)
      then new @ replace old new (drop (length old - 1) cs)
      else c # replace old new cs)"

text \<open>Truth value of a payload (\<^verbatim>\<open>not doc\<close>, \<^verbatim>\<open>if response['Datapoints']\<close>).\<close>

fun truthy :: "pyval \<Rightarrow> bool" where
  "truthy PNone = False"
| "truthy (PBool b) = b"
| "truthy (PInt i) = (i \<noteq> 0)"
| "truthy (PFloat x) = (x \<noteq> 0)"
| "truthy (PStr s) = (s \<noteq> [])"
| "truthy (PDatetime t) = True"
| "truthy (PList xs) = (xs \<noteq> [])"
| "truthy (PDict kvs) = (kvs \<noteq> [])"

text \<open>\<^verbatim>\<open>v[k]\<close> with a string key: only a dictionary can be subscripted by a string.\<close>

fun py_getitem :: "pyval \<Rightarrow> string \<Rightarrow> pyexc + pyval" where
  "py_getitem (PDict kvs) k = (case map_of kvs k of None \<Rightarrow> Inl KeyError | Some v \<Rightarrow> Inr v)"
| "py_getitem v k = Inl TypeError"

text \<open>\<^verbatim>\<open>v.get(k, default)\<close>: a method of dictionaries only.\<close>

fun py_get :: "pyval \<Rightarrow> string \<Rightarrow> pyval \<Rightarrow> pyexc + pyval" where
  "py_get (PDict kvs) k d = Inr (case map_of kvs k of None \<Rightarrow> d | Some v \<Rightarrow> v)"
| "py_get v k d = Inl AttributeError"

text \<open>
  \<^verbatim>\<open>k in v\<close> with a string \<open>k\<close>: a key of a dictionary, an element of a list, a
  substring of a string; any other operand is not iterable.
\<close>

fun py_in :: "string \<Rightarrow> pyval \<Rightarrow> pyexc + bool" where
  "py_in k (PDict kvs) = Inr (k \<in> set (map fst kvs))"
| "py_in k (PList xs) = Inr (PStr k \<in> set xs)"
| "py_in k (PStr s) = Inr (contains k s)"
| "py_in k v = Inl TypeError"

text \<open>The elements a \<^verbatim>\<open>for\<close> loop or a generator expression draws from a value.\<close>

fun py_iter :: "pyval \<Rightarrow> pyexc + pyval list" where
  "py_iter (PList xs) = Inr xs"
| "py_iter (PDict kvs) = Inr (map (\<lambda>kv. PStr (fst kv)) kvs)"
| "py_iter (PStr s) = Inr (map (\<lambda>c. PStr [c]) s)"
| "py_iter v = Inl TypeError"

text \<open>\<^verbatim>\<open>isinstance(v, dict)\<close>.\<close>

fun is_dict :: "pyval \<Rightarrow> bool" where
  "is_dict (PDict kvs) = True"
| "is_dict v = False"

text \<open>
  \<^verbatim>\<open>all(p(c) for c in xs)\<close> and \<^verbatim>\<open>any(p(c) for c in xs)\<close> over a generator: the
  elements are tested in order, the first deciding one ends the scan, and an exception raised
  by a test that is reached propagates.
\<close>

fun py_all :: "('a \<Rightarrow> pyexc + bool) \<Rightarrow> 'a list \<Rightarrow> pyexc + bool" where
  "py_all p [] = Inr True"
| "py_all p (x # xs) =
     (case p x of Inl e \<Rightarrow> Inl e | Inr b \<Rightarrow> if b then py_all p xs else Inr False)"

fun py_any :: "('a \<Rightarrow> pyexc + bool) \<Rightarrow> 'a list \<Rightarrow> pyexc + bool" where
  "py_any p [] = Inr False"
| "py_any p (x # xs) =
     (case p x of Inl e \<Rightarrow> Inl e | Inr b \<Rightarrow> if b then Inr True else py_any p xs)"

text \<open>
  A \<^verbatim>\<open>for\<close> loop whose body updates a state and may raise: the state reached when the
  exception is raised is kept, since the handlers of both scripts leave what was already
  appended in place.
\<close>

fun for_each :: "('a \<Rightarrow> 's \<Rightarrow> 's \<times> pyexc option) \<Rightarrow> 'a list \<Rightarrow> 's \<Rightarrow> 's \<times> pyexc option" where
  "for_each body [] s = (s, None)"
| "for_each body (x # xs) s =
     (case body x s of
        (s', None) \<Rightarrow> for_each body xs s'
      | (s', Some e) \<Rightarrow> (s', Some e))"

section \<open>The cloud cost analyzer (\<^verbatim>\<open>scripts/cloud-cost-analyzer.py\<close>)\<close>

text \<open>
  A finding is the dictionary literal the analyzer appends: the same five keys every time.
  The \<^verbatim>\<open>resource\<close> is whatever the API returned, the other four are strings built by
  the script. \<open>ftype\<close> is the key \<^verbatim>\<open>'type'\<close>.
\<close>

record finding =
  resource :: pyval
  ftype :: string
  issue :: string
  recommendation :: string
  potential_savings :: string

text \<open>The object state of \<^verbatim>\<open>CloudCostAnalyzer\<close> that the methods read and write.\<close>

record analyzer =
  region :: string
  findings :: "finding list"

text \<open>
  What one run meets outside the script: the answers of the boto3 clients (an exception
  or a response), the clock, and whether a file can be opened for writing.
\<close>

record aws =
  client_error :: "pyexc option"
  describe_instances :: "pyexc + pyval"
  get_metric_statistics :: "pyval \<Rightarrow> pyexc + pyval"
  describe_volumes :: "pyexc + pyval"
  describe_snapshots :: "pyexc + pyval"
  describe_addresses :: "pyexc + pyval"
  now :: int
  now_isoformat :: string
  open_w :: "string \<Rightarrow> pyexc option"

definition append_finding :: "finding \<Rightarrow> analyzer \<Rightarrow> analyzer" where
  "append_finding f a = a\<lparr>findings := findings a @ [f]\<rparr>"

subsection \<open>\<^verbatim>\<open>get_average_cpu\<close>\<close>

text \<open>The values \<^verbatim>\<open>d['Average']\<close> of the datapoints, in order.\<close>

fun averages :: "pyval list \<Rightarrow> pyexc + pyval list" where
  "averages [] = Inr []"
| "averages (d # ds) =
     (case py_getitem d ''Average'' of
        Inl e \<Rightarrow> Inl e
      | Inr x \<Rightarrow> (case averages ds of Inl e \<Rightarrow> Inl e | Inr xs \<Rightarrow> Inr (x # xs)))"

text \<open>
  The bare \<^verbatim>\<open>except\<close> turns every exception into \<^verbatim>\<open>None\<close>, whether it comes from
  the query, from a subscript or from the arithmetic.
\<close>

definition get_average_cpu :: "pyfmt \<Rightarrow> aws \<Rightarrow> pyval \<Rightarrow> rat option" where
  "get_average_cpu fmt env instance_id =
     (case get_metric_statistics env instance_id of
        Inl e \<Rightarrow> None
      | Inr response \<Rightarrow>
          (case py_getitem response ''Datapoints'' of
             Inl e \<Rightarrow> None
           | Inr dps \<Rightarrow>
               if truthy dps
               then (case bindE (bindE (py_iter dps) averages) (mean fmt) of
                       Inl e \<Rightarrow> None
                     | Inr avg \<Rightarrow> Some avg)
               else None))"

subsection \<open>\<^verbatim>\<open>analyze_ec2_instances\<close>\<close>

definition stopped_finding :: "pyval \<Rightarrow> finding" where
  "stopped_finding instance_id =
     \<lparr>resource = instance_id, ftype = ''EC2'',
      issue = ''Stopped instance still incurring EBS costs'',
      recommendation = ''Terminate if not needed or create AMI and terminate'',
      potential_savings = ''Low''\<rparr>"

definition old_generation_finding :: "pyval \<Rightarrow> string \<Rightarrow> finding" where
  "old_generation_finding instance_id instance_type =
     (let new_gen = replace ''c4'' ''c5'' (replace ''m4'' ''m5'' (replace ''t2'' ''t3'' instance_type))
      in \<lparr>resource = instance_id, ftype = ''EC2'',
          issue = ''Old generation instance type: '' @ instance_type,
          recommendation = ''Upgrade to '' @ new_gen @ '' for better price/performance'',
          potential_savings = ''Medium''\<rparr>)"

definition low_cpu_finding :: "pyfmt \<Rightarrow> pyval \<Rightarrow> rat \<Rightarrow> finding" where
  "low_cpu_finding fmt instance_id avg_cpu =
     \<lparr>resource = instance_id, ftype = ''EC2'',
      issue = ''Low CPU utilization: '' @ format_1f fmt avg_cpu @ ''%'',
      recommendation = ''Consider downsizing or terminating'',
      potential_savings = ''High''\<rparr>"

text \<open>The body of the inner loop (source lines 32 to 67), for one instance descriptor.\<close>

definition ec2_instance :: "pyfmt \<Rightarrow> aws \<Rightarrow> pyval \<Rightarrow> analyzer \<Rightarrow> analyzer \<times> pyexc option" where
  "ec2_instance fmt env instance a =
     (case py_getitem instance ''InstanceId'' of
        Inl e \<Rightarrow> (a, Some e)
      | Inr instance_id \<Rightarrow>
     (case py_getitem instance ''InstanceType'' of
        Inl e \<Rightarrow> (a, Some e)
      | Inr instance_type \<Rightarrow>
     (case bindE (py_getitem instance ''State'') (\<lambda>s. py_getitem s ''Name'') of
        Inl e \<Rightarrow> (a, Some e)
      | Inr state \<Rightarrow>
          let a1 = (if state = PStr ''stopped''
                    then append_finding (stopped_finding instance_id) a else a)
          in (case instance_type of
                PStr t \<Rightarrow>
                  let a2 = (if prefix ''t2'' t \<or> prefix ''m4'' t \<or> prefix ''c4'' t
                            then append_finding (old_generation_finding instance_id t) a1
                            else a1);
                      a3 = (if state = PStr ''running''
                            then (case get_average_cpu fmt env instance_id of
                                    None \<Rightarrow> a2
                                  | Some avg_cpu \<Rightarrow>
                                      if avg_cpu < 10
                                      then append_finding (low_cpu_finding fmt instance_id avg_cpu) a2
                                      else a2)
                            else a2)
                  in (a3, None)
              | _ \<Rightarrow> (a1, Some AttributeError)))))"

definition ec2_reservation :: "pyfmt \<Rightarrow> aws \<Rightarrow> pyval \<Rightarrow> analyzer \<Rightarrow> analyzer \<times> pyexc option" where
  "ec2_reservation fmt env reservation a =
     (case bindE (py_getitem reservation ''Instances'') py_iter of
        Inl e \<Rightarrow> (a, Some e)
      | Inr instances \<Rightarrow> for_each (ec2_instance fmt env) instances a)"

text \<open>The whole method: \<^verbatim>\<open>except Exception\<close> prints and returns.\<close>

definition analyze_ec2_instances :: "pyfmt \<Rightarrow> aws \<Rightarrow> analyzer \<Rightarrow> analyzer" where
  "analyze_ec2_instances fmt env a =
     (case describe_instances env of
        Inl e \<Rightarrow> a
      | Inr instances \<Rightarrow>
          (case bindE (py_getitem instances ''Reservations'') py_iter of
             Inl e \<Rightarrow> a
           | Inr reservations \<Rightarrow> fst (for_each (ec2_reservation fmt env) reservations a)))"

subsection \<open>\<^verbatim>\<open>analyze_ebs_volumes\<close>\<close>

text \<open>\<^verbatim>\<open>f'~${size * rate}/month'\<close>: the product is Python's, and may raise.\<close>

definition monthly :: "pyfmt \<Rightarrow> pyval \<Rightarrow> rat \<Rightarrow> pyexc + string" where
  "monthly fmt size' rate =
     bindE (times fmt size' rate) (\<lambda>x. Inr (''~$'' @ repr_float fmt x @ ''/month''))"

definition ebs_volume :: "pyfmt \<Rightarrow> pyval \<Rightarrow> analyzer \<Rightarrow> analyzer \<times> pyexc option" where
  "ebs_volume fmt volume a =
     (case py_getitem volume ''VolumeId'' of
        Inl e \<Rightarrow> (a, Some e)
      | Inr volume_id \<Rightarrow>
     (case py_getitem volume ''VolumeType'' of
        Inl e \<Rightarrow> (a, Some e)
      | Inr volume_type \<Rightarrow>
     (case py_getitem volume ''Size'' of
        Inl e \<Rightarrow> (a, Some e)
      | Inr size' \<Rightarrow>
     (case py_getitem volume ''State'' of
        Inl e \<Rightarrow> (a, Some e)
      | Inr state \<Rightarrow>
     (case (if state = PStr ''available''
            then (case monthly fmt size' (1 / 10) of
                    Inl e \<Rightarrow> Inl e
                  | Inr savings \<Rightarrow>
                      Inr (append_finding
                        \<lparr>resource = volume_id, ftype = ''EBS'',
                         issue = ''Unattached '' @ py_str fmt size' @ ''GB volume'',
                         recommendation = ''Delete if not needed (create snapshot first)'',
                         potential_savings = savings\<rparr> a))
            else Inr a) of
        Inl e \<Rightarrow> (a, Some e)
      | Inr a1 \<Rightarrow>
          if volume_type = PStr ''standard'' \<or> volume_type = PStr ''io1''
          then let new_type = (if volume_type = PStr ''standard'' then ''gp3'' else ''io2'')
               in (append_finding
                     \<lparr>resource = volume_id, ftype = ''EBS'',
                      issue = ''Old volume type: '' @ py_str fmt volume_type,
                      recommendation = ''Migrate to '' @ new_type @ '' for better cost/performance'',
                      potential_savings = ''Low-Medium''\<rparr> a1, None)
          else (a1, None))))))"

definition analyze_ebs_volumes :: "pyfmt \<Rightarrow> aws \<Rightarrow> analyzer \<Rightarrow> analyzer" where
  "analyze_ebs_volumes fmt env a =
     (case describe_volumes env of
        Inl e \<Rightarrow> a
      | Inr volumes \<Rightarrow>
          (case bindE (py_getitem volumes ''Volumes'') py_iter of
             Inl e \<Rightarrow> a
           | Inr vs \<Rightarrow> fst (for_each (ebs_volume fmt) vs a)))"

subsection \<open>\<^verbatim>\<open>analyze_snapshots\<close>\<close>

text \<open>\<^verbatim>\<open>v.replace(tzinfo=None)\<close>: the wall-clock time of a datetime; a string has a
  \<^verbatim>\<open>replace\<close> that takes no keyword, any other value has none.\<close>

fun replace_tzinfo :: "pyval \<Rightarrow> pyexc + int" where
  "replace_tzinfo (PDatetime t) = Inr t"
| "replace_tzinfo (PStr s) = Inl TypeError"
| "replace_tzinfo v = Inl AttributeError"

definition days_90 :: int where
  "days_90 = 90 * 86400 * 1000000"

definition snapshot_step :: "pyfmt \<Rightarrow> int \<Rightarrow> pyval \<Rightarrow> analyzer \<Rightarrow> analyzer \<times> pyexc option" where
  "snapshot_step fmt old_threshold snapshot a =
     (case py_getitem snapshot ''SnapshotId'' of
        Inl e \<Rightarrow> (a, Some e)
      | Inr snapshot_id \<Rightarrow>
     (case bindE (py_getitem snapshot ''StartTime'') replace_tzinfo of
        Inl e \<Rightarrow> (a, Some e)
      | Inr start_time \<Rightarrow>
     (case py_getitem snapshot ''VolumeSize'' of
        Inl e \<Rightarrow> (a, Some e)
      | Inr size' \<Rightarrow>
          if start_time < old_threshold
          then (case monthly fmt size' (1 / 20) of
                  Inl e \<Rightarrow> (a, Some e)
                | Inr savings \<Rightarrow>
                    (append_finding
                       \<lparr>resource = snapshot_id, ftype = ''Snapshot'',
                        issue = ''Snapshot older than 90 days ('' @ py_str fmt size' @ ''GB)'',
                        recommendation = ''Review if still needed, delete if not'',
                        potential_savings = savings\<rparr> a, None))
          else (a, None))))"

definition analyze_snapshots :: "pyfmt \<Rightarrow> aws \<Rightarrow> analyzer \<Rightarrow> analyzer" where
  "analyze_snapshots fmt env a =
     (case describe_snapshots env of
        Inl e \<Rightarrow> a
      | Inr snapshots \<Rightarrow>
          let old_threshold = now env - days_90
          in (case bindE (py_getitem snapshots ''Snapshots'') py_iter of
                Inl e \<Rightarrow> a
              | Inr ss \<Rightarrow> fst (for_each (snapshot_step fmt old_threshold) ss a)))"

subsection \<open>\<^verbatim>\<open>analyze_elastic_ips\<close>\<close>

definition eip_finding :: "pyval \<Rightarrow> finding" where
  "eip_finding public_ip =
     \<lparr>resource = public_ip, ftype = ''EIP'',
      issue = ''Unassociated Elastic IP'',
      recommendation = ''Release if not needed'',
      potential_savings = ''~$3.60/month''\<rparr>"

text \<open>The loop body (source lines 162 to 169), for one address descriptor.\<close>

definition elastic_ip :: "pyval \<Rightarrow> analyzer \<Rightarrow> analyzer \<times> pyexc option" where
  "elastic_ip eip a =
     (case py_in ''AssociationId'' eip of
        Inl e \<Rightarrow> (a, Some e)
      | Inr associated \<Rightarrow>
          if \<not> associated
          then (case py_get eip ''PublicIp'' (PStr ''Unknown'') of
                  Inl e \<Rightarrow> (a, Some e)
                | Inr public_ip \<Rightarrow> (append_finding (eip_finding public_ip) a, None))
          else (a, None))"

definition analyze_elastic_ips :: "aws \<Rightarrow> analyzer \<Rightarrow> analyzer" where
  "analyze_elastic_ips env a =
     (case describe_addresses env of
        Inl e \<Rightarrow> a
      | Inr eips \<Rightarrow>
          (case bindE (py_getitem eips ''Addresses'') py_iter of
             Inl e \<Rightarrow> a
           | Inr es \<Rightarrow> fst (for_each elastic_ip es a)))"

subsection \<open>\<^verbatim>\<open>generate_report\<close>\<close>

text \<open>
  \<^verbatim>\<open>by_type[finding['type']].append(finding)\<close> on a \<^verbatim>\<open>defaultdict(list)\<close>: a
  dictionary keeps its keys in the order of their first insertion, so the grouping is an
  association list; a known key gets the finding at the end of its list, an unknown key is
  added last with a list of that one finding.
\<close>

fun by_type_append :: "finding \<Rightarrow> (string \<times> finding list) list \<Rightarrow> (string \<times> finding list) list" where
  "by_type_append f [] = [(ftype f, [f])]"
| "by_type_append f ((k, fs) # rest) =
     (if k = ftype f then (k, fs @ [f]) # rest else (k, fs) # by_type_append f rest)"

definition group_by_type :: "finding list \<Rightarrow> (string \<times> finding list) list" where
  "group_by_type fs = foldl (\<lambda>by_type finding. by_type_append finding by_type) [] fs"

text \<open>
  The method prints only. Its result here is what the printed report lists: nothing when
  there is no finding, else the sections in the order of \<^verbatim>\<open>by_type.items()\<close>, each with
  its findings in the order the inner loop numbers them, and the total.
\<close>

definition generate_report :: "analyzer \<Rightarrow> ((string \<times> finding list) list \<times> nat) option" where
  "generate_report a =
     (if findings a = [] then None
      else Some (group_by_type (findings a), length (findings a)))"

subsection \<open>\<^verbatim>\<open>export_json\<close>\<close>

text \<open>
  The data model of the \<^verbatim>\<open>json\<close> module: \<^verbatim>\<open>json.dump\<close> maps a Python value to a JSON
  value and raises \<^verbatim>\<open>TypeError\<close> at a value that has no JSON form (a datetime);
  \<^verbatim>\<open>json.load\<close> maps a JSON value back. The text between the two is the library's.
\<close>

datatype json =
    JNull
  | JBool bool
  | JInt int
  | JFloat rat
  | JString string
  | JArray "json list"
  | JObject "(string \<times> json) list"

fun json_dump :: "pyval \<Rightarrow> pyexc + json"
  and json_dump_list :: "pyval list \<Rightarrow> pyexc + json list"
  and json_dump_items :: "(string \<times> pyval) list \<Rightarrow> pyexc + (string \<times> json) list" where
  "json_dump PNone = Inr JNull"
| "json_dump (PBool b) = Inr (JBool b)"
| "json_dump (PInt i) = Inr (JInt i)"
| "json_dump (PFloat x) = Inr (JFloat x)"
| "json_dump (PStr s) = Inr (JString s)"
| "json_dump (PDatetime t) = Inl TypeError"
| "json_dump (PList xs) = (case json_dump_list xs of Inl e \<Rightarrow> Inl e | Inr js \<Rightarrow> Inr (JArray js))"
| "json_dump (PDict kvs) = (case json_dump_items kvs of Inl e \<Rightarrow> Inl e | Inr js \<Rightarrow> Inr (JObject js))"
| "json_dump_list [] = Inr []"
| "json_dump_list (x # xs) =
     (case json_dump x of
        Inl e \<Rightarrow> Inl e
      | Inr j \<Rightarrow> (case json_dump_list xs of Inl e \<Rightarrow> Inl e | Inr js \<Rightarrow> Inr (j # js)))"
| "json_dump_items [] = Inr []"
| "json_dump_items ((k, v) # kvs) =
     (case json_dump v of
        Inl e \<Rightarrow> Inl e
      | Inr j \<Rightarrow> (case json_dump_items kvs of Inl e \<Rightarrow> Inl e | Inr js \<Rightarrow> Inr ((k, j) # js)))"

fun json_load :: "json \<Rightarrow> pyval"
  and json_load_list :: "json list \<Rightarrow> pyval list"
  and json_load_items :: "(string \<times> json) list \<Rightarrow> (string \<times> pyval) list" where
  "json_load JNull = PNone"
| "json_load (JBool b) = PBool b"
| "json_load (JInt i) = PInt i"
| "json_load (JFloat x) = PFloat x"
| "json_load (JString s) = PStr s"
| "json_load (JArray js) = PList (json_load_list js)"
| "json_load (JObject kjs) = PDict (json_load_items kjs)"
| "json_load_list [] = []"
| "json_load_list (j # js) = json_load j # json_load_list js"
| "json_load_items [] = []"
| "json_load_items ((k, j) # kjs) = (k, json_load j) # json_load_items kjs"

text \<open>A finding as the dictionary it is in the script, keys in the order of the literal.\<close>

definition finding_dict :: "finding \<Rightarrow> pyval" where
  "finding_dict f =
     PDict [(''resource'', resource f),
            (''type'', PStr (ftype f)),
            (''issue'', PStr (issue f)),
            (''recommendation'', PStr (recommendation f)),
            (''potential_savings'', PStr (potential_savings f))]"

text \<open>The dictionary handed to \<^verbatim>\<open>json.dump\<close> (source lines 206 to 211).\<close>

definition export_document :: "aws \<Rightarrow> analyzer \<Rightarrow> pyval" where
  "export_document env a =
     PDict [(''analysis_date'', PStr (now_isoformat env)),
            (''region'', PStr (region a)),
            (''total_findings'', PInt (int (length (findings a)))),
            (''findings'', PList (map finding_dict (findings a)))]"

text \<open>
  The result is the JSON value in the file when the method returns, or the exception that
  leaves it: the one of \<^verbatim>\<open>open\<close>, or the one of \<^verbatim>\<open>json.dump\<close>.
\<close>

definition export_json :: "aws \<Rightarrow> string \<Rightarrow> analyzer \<Rightarrow> pyexc + json" where
  "export_json env filename a =
     (case open_w env filename of
        Some e \<Rightarrow> Inl e
      | None \<Rightarrow> json_dump (export_document env a))"

subsection \<open>\<^verbatim>\<open>main\<close> of the cost analyzer\<close>

text \<open>
  How a run of a script ends: \<^verbatim>\<open>main\<close> returns, \<^verbatim>\<open>sys.exit(n)\<close> is called, or an
  exception reaches the top level. The interpreter exits with 0, \<open>n\<close> and 1.
\<close>

datatype outcome = Returned | SysExit nat | Uncaught pyexc

fun exit_code :: "outcome \<Rightarrow> nat" where
  "exit_code Returned = 0"
| "exit_code (SysExit n) = n"
| "exit_code (Uncaught e) = 1"

record cca_args =
  arg_region :: string
  arg_export :: "string option"

text \<open>The four analyses in the order \<^verbatim>\<open>main\<close> calls them (source lines 231 to 234).\<close>

definition run_analyses :: "pyfmt \<Rightarrow> aws \<Rightarrow> analyzer \<Rightarrow> analyzer" where
  "run_analyses fmt env a =
     analyze_elastic_ips env
       (analyze_snapshots fmt env
          (analyze_ebs_volumes fmt env
             (analyze_ec2_instances fmt env a)))"

text \<open>
  \<^verbatim>\<open>main\<close>, after the arguments are parsed. The constructor creates the clients, which
  may raise; \<^verbatim>\<open>if args.export:\<close> skips an absent and an empty name. There is no
  \<^verbatim>\<open>sys.exit\<close> in this script.
\<close>

definition cca_main :: "pyfmt \<Rightarrow> aws \<Rightarrow> cca_args \<Rightarrow> outcome" where
  "cca_main fmt env args =
     (case client_error env of
        Some e \<Rightarrow> Uncaught e
      | None \<Rightarrow>
          let analyzer = run_analyses fmt env \<lparr>region = arg_region args, findings = []\<rparr>;
              report = generate_report analyzer
          in (case arg_export args of
                None \<Rightarrow> Returned
              | Some filename \<Rightarrow>
                  if filename = [] then Returned
                  else (case export_json env filename analyzer of
                          Inl e \<Rightarrow> Uncaught e
                        | Inr written \<Rightarrow> Returned)))"

section \<open>The infrastructure validator (\<^verbatim>\<open>scripts/infrastructure-validator.py\<close>)\<close>

text \<open>
  \<^verbatim>\<open>self.results\<close> has the three fixed keys \<^verbatim>\<open>'terraform'\<close>, \<^verbatim>\<open>'ansible'\<close> and
  \<^verbatim>\<open>'kubernetes'\<close>, each with the three lists \<^verbatim>\<open>'passed'\<close>, \<^verbatim>\<open>'failed'\<close> and
  \<^verbatim>\<open>'warnings'\<close>.
\<close>

datatype category = Terraform | Ansible | Kubernetes

record category_results =
  passed :: "string list"
  failed :: "string list"
  warnings :: "string list"

text \<open>
  The state a validation reads and writes: the results of the validator object and the
  working directory of the process, which \<^verbatim>\<open>os.chdir\<close> changes.
\<close>

record vstate =
  results :: "category \<Rightarrow> category_results"
  cwd :: string

definition initial_results :: "category \<Rightarrow> category_results" where
  "initial_results = (\<lambda>c. \<lparr>passed = [], failed = [], warnings = []\<rparr>)"

definition append_passed :: "category \<Rightarrow> string \<Rightarrow> vstate \<Rightarrow> vstate" where
  "append_passed c x v =
     v\<lparr>results := (results v)(c := (results v c)\<lparr>passed := passed (results v c) @ [x]\<rparr>)\<rparr>"

definition append_failed :: "category \<Rightarrow> string \<Rightarrow> vstate \<Rightarrow> vstate" where
  "append_failed c x v =
     v\<lparr>results := (results v)(c := (results v c)\<lparr>failed := failed (results v c) @ [x]\<rparr>)\<rparr>"

definition append_warning :: "category \<Rightarrow> string \<Rightarrow> vstate \<Rightarrow> vstate" where
  "append_warning c x v =
     v\<lparr>results := (results v)(c := (results v c)\<lparr>warnings := warnings (results v c) @ [x]\<rparr>)\<rparr>"

text \<open>
  An entry of the local list \<^verbatim>\<open>checks\<close> is a pair of a status symbol and a message. The
  four symbols of the script are the check mark, the cross, the warning sign and the
  information sign.
\<close>

datatype mark = Mark_ok | Mark_fail | Mark_warn | Mark_info

type_synonym checks = "(mark \<times> string) list"

text \<open>The dictionary a validation returns.\<close>

datatype vresult = Skipped string | Completed checks

text \<open>
  A file that \<^verbatim>\<open>rglob\<close> found: its \<^verbatim>\<open>name\<close> and what each way of reading it gives.
  \<^verbatim>\<open>yaml.safe_load_all\<close> is a generator: it yields the documents it could parse and
  then, possibly, raises; a failing \<^verbatim>\<open>open\<close> is no document and an exception.
\<close>

record fsfile =
  fname :: string
  read_text :: "pyexc + string"
  safe_load :: "pyexc + pyval"
  safe_load_all :: "pyval list \<times> pyexc option"

text \<open>
  The host of one run: the files below an absolute directory that match a suffix, the
  external tools (each called with the working directory of the process, and giving an
  exception or a return code), \<^verbatim>\<open>os.chdir\<close>, and \<^verbatim>\<open>open(..., 'w')\<close> on an absolute
  path.
\<close>

record host =
  rglob :: "string \<Rightarrow> string \<Rightarrow> fsfile list"
  terraform_fmt :: "string \<Rightarrow> string \<Rightarrow> pyexc + int"
  chdir :: "string \<Rightarrow> string \<Rightarrow> pyexc option"
  terraform_validate :: "string \<Rightarrow> pyexc + (int \<times> string)"
  ansible_lint :: "string \<Rightarrow> pyexc + int"
  open_write :: "string \<Rightarrow> pyexc option"

text \<open>The operating system resolves a relative path against the working directory.\<close>

definition resolve :: "string \<Rightarrow> string \<Rightarrow> string" where
  "resolve dir path = (if prefix ''/'' path then path else dir @ ''/'' @ path)"

subsection \<open>\<^verbatim>\<open>validate_terraform\<close>\<close>

text \<open>\<^verbatim>\<open>word in f.read_text()\<close>, which raises what \<^verbatim>\<open>read_text\<close> raises.\<close>

definition mentions :: "string \<Rightarrow> fsfile \<Rightarrow> pyexc + bool" where
  "mentions word f = (case read_text f of Inl e \<Rightarrow> Inl e | Inr content \<Rightarrow> Inr (contains word content))"

text \<open>Check 1: remote state configuration (source lines 36 to 42).\<close>

definition tf_remote_state :: "fsfile list \<Rightarrow> checks \<times> vstate \<Rightarrow> pyexc + checks \<times> vstate" where
  "tf_remote_state tf_files s =
     (case s of (checks, v) \<Rightarrow>
      (case py_any (mentions ''backend'') tf_files of
         Inl e \<Rightarrow> Inl e
       | Inr has_backend \<Rightarrow>
           if has_backend
           then Inr (checks @ [(Mark_ok, ''Remote state backend configured'')],
                     append_passed Terraform ''Remote state configured'' v)
           else Inr (checks @ [(Mark_fail, ''No remote state backend found'')],
                     append_failed Terraform ''Missing remote state backend'' v)))"

text \<open>Check 2: provider version constraints (source lines 45 to 51).\<close>

definition tf_provider_versions :: "fsfile list \<Rightarrow> checks \<times> vstate \<Rightarrow> pyexc + checks \<times> vstate" where
  "tf_provider_versions tf_files s =
     (case s of (checks, v) \<Rightarrow>
      (case py_any (mentions ''required_providers'') tf_files of
         Inl e \<Rightarrow> Inl e
       | Inr has_version_constraints \<Rightarrow>
           if has_version_constraints
           then Inr (checks @ [(Mark_ok, ''Provider versions pinned'')],
                     append_passed Terraform ''Provider versions pinned'' v)
           else Inr (checks @ [(Mark_warn, ''Provider versions not explicitly set'')],
                     append_warning Terraform ''Pin provider versions'' v)))"

text \<open>Check 3: resource tagging (source lines 54 to 58). No handler surrounds the read.\<close>

fun tf_resource_tagging :: "fsfile list \<Rightarrow> checks \<times> vstate \<Rightarrow> pyexc + checks \<times> vstate" where
  "tf_resource_tagging [] s = Inr s"
| "tf_resource_tagging (tf_file # rest) (checks, v) =
     (case read_text tf_file of
        Inl e \<Rightarrow> Inl e
      | Inr content \<Rightarrow>
          if contains ''resource '' content \<and> \<not> contains ''tags'' content
          then tf_resource_tagging rest
                 (checks @ [(Mark_warn, fname tf_file @ '': Resources may be missing tags'')],
                  append_warning Terraform (fname tf_file @ '': Add tags'') v)
          else tf_resource_tagging rest (checks, v))"

text \<open>Check 4: \<^verbatim>\<open>terraform fmt\<close> (source lines 61 to 74); only
  \<^verbatim>\<open>FileNotFoundError\<close> is handled.\<close>

definition tf_fmt :: "host \<Rightarrow> string \<Rightarrow> checks \<times> vstate \<Rightarrow> pyexc + checks \<times> vstate" where
  "tf_fmt env path s =
     (case s of (checks, v) \<Rightarrow>
      (case terraform_fmt env (cwd v) path of
         Inr returncode \<Rightarrow>
           if returncode = 0
           then Inr (checks @ [(Mark_ok, ''Terraform formatting is correct'')],
                     append_passed Terraform ''Formatting correct'' v)
           else Inr (checks @ [(Mark_fail, ''Terraform needs formatting'')],
                     append_failed Terraform ''Run terraform fmt'' v)
       | Inl e \<Rightarrow>
           if e = FileNotFoundError
           then Inr (checks @ [(Mark_warn, ''Terraform not installed'')], v)
           else Inl e))"

text \<open>
  Check 5: \<^verbatim>\<open>terraform validate\<close> (source lines 77 to 87). \<^verbatim>\<open>os.chdir(path)\<close> is the
  first statement of the \<^verbatim>\<open>try\<close>; nothing changes the directory back, also not the
  handler.
\<close>

definition tf_validate :: "pyfmt \<Rightarrow> host \<Rightarrow> string \<Rightarrow> checks \<times> vstate \<Rightarrow> checks \<times> vstate" where
  "tf_validate fmt env path s =
     (case s of (checks, v) \<Rightarrow>
      (case chdir env (cwd v) path of
         Some e \<Rightarrow> (checks @ [(Mark_warn, ''Could not validate: '' @ str_exc fmt e)], v)
       | None \<Rightarrow>
           let v' = v\<lparr>cwd := resolve (cwd v) path\<rparr>
           in (case terraform_validate env (cwd v') of
                 Inl e \<Rightarrow> (checks @ [(Mark_warn, ''Could not validate: '' @ str_exc fmt e)], v')
               | Inr (returncode, stderr) \<Rightarrow>
                   if returncode = 0
                   then (checks @ [(Mark_ok, ''Terraform configuration is valid'')],
                         append_passed Terraform ''Configuration valid'' v')
                   else (checks @ [(Mark_fail, ''Validation failed: '' @ stderr)],
                         append_failed Terraform ''Configuration invalid'' v'))))"

definition validate_terraform :: "pyfmt \<Rightarrow> host \<Rightarrow> string \<Rightarrow> vstate \<Rightarrow> pyexc + vresult \<times> vstate" where
  "validate_terraform fmt env path v =
     (let tf_files = rglob env (resolve (cwd v) path) ''.tf''
      in if tf_files = [] then Inr (Skipped ''No Terraform files found'', v)
         else (case bindE (bindE (bindE (tf_remote_state tf_files ([], v))
                                        (tf_provider_versions tf_files))
                                 (tf_resource_tagging tf_files))
                          (tf_fmt env path) of
                 Inl e \<Rightarrow> Inl e
               | Inr s \<Rightarrow>
                   (case tf_validate fmt env path s of
                      (checks, v') \<Rightarrow> Inr (Completed checks, v'))))"

subsection \<open>\<^verbatim>\<open>validate_ansible\<close>\<close>

text \<open>\<^verbatim>\<open>k in d\<close> and \<^verbatim>\<open>k not in d\<close> where \<open>d\<close> is known to be a dictionary.\<close>

fun has_key :: "string \<Rightarrow> pyval \<Rightarrow> bool" where
  "has_key k (PDict kvs) = (k \<in> set (map fst kvs))"
| "has_key k v = False"

text \<open>
  The body of the loop over the plays (source lines 115 to 134). The loop over the tasks
  stops at the first dictionary without a name, so it adds one warning when there is such a
  task; iterating \<^verbatim>\<open>play['tasks']\<close> raises when that is no collection.
\<close>

definition ansible_play :: "string \<Rightarrow> pyval \<Rightarrow> checks \<times> vstate \<Rightarrow> (checks \<times> vstate) \<times> pyexc option" where
  "ansible_play name play s =
     (case s of (checks, v) \<Rightarrow>
      if is_dict play
      then let s1 = (if has_key ''name'' play
                     then (checks @ [(Mark_ok, name @ '': Has descriptive name'')],
                           append_passed Ansible (name @ '': Named'') v)
                     else (checks @ [(Mark_warn, name @ '': Missing name'')],
                           append_warning Ansible (name @ '': Add name'') v));
               s2 = (if has_key ''become'' play
                     then (fst s1 @ [(Mark_info, name @ '': Uses privilege escalation'')], snd s1)
                     else s1)
           in if has_key ''tasks'' play
              then (case bindE (py_getitem play ''tasks'') py_iter of
                      Inl e \<Rightarrow> (s2, Some e)
                    | Inr tasks \<Rightarrow>
                        if list_ex (\<lambda>task. is_dict task \<and> \<not> has_key ''name'' task) tasks
                        then ((fst s2 @ [(Mark_warn, name @ '': Task missing name'')],
                               append_warning Ansible (name @ '': Name all tasks'') (snd s2)), None)
                        else (s2, None))
              else (s2, None)
      else (s, None))"

text \<open>The two handlers of the loop over the playbooks (source lines 135 to 139).\<close>

definition ansible_except :: "pyfmt \<Rightarrow> string \<Rightarrow> pyexc \<Rightarrow> checks \<times> vstate \<Rightarrow> checks \<times> vstate" where
  "ansible_except fmt name e s =
     (case s of (checks, v) \<Rightarrow>
      if e = YAMLError
      then (checks @ [(Mark_fail, name @ '': YAML syntax error: '' @ str_exc fmt e)],
            append_failed Ansible (name @ '': YAML error'') v)
      else (checks @ [(Mark_warn, name @ '': Could not parse: '' @ str_exc fmt e)], v))"

text \<open>One playbook (source lines 105 to 139).\<close>

definition ansible_playbook :: "pyfmt \<Rightarrow> fsfile \<Rightarrow> checks \<times> vstate \<Rightarrow> checks \<times> vstate" where
  "ansible_playbook fmt playbook s =
     (case safe_load playbook of
        Inl e \<Rightarrow> ansible_except fmt (fname playbook) e s
      | Inr content \<Rightarrow>
          if \<not> truthy content then s
          else (case content of
                  PList plays \<Rightarrow>
                    (case for_each (ansible_play (fname playbook)) plays s of
                       (s', None) \<Rightarrow> s'
                     | (s', Some e) \<Rightarrow> ansible_except fmt (fname playbook) e s')
                | _ \<Rightarrow> s))"

text \<open>The probe for \<^verbatim>\<open>ansible-lint\<close> (source lines 142 to 149); only
  \<^verbatim>\<open>FileNotFoundError\<close> is handled.\<close>

definition ansible_lint_check :: "host \<Rightarrow> checks \<times> vstate \<Rightarrow> pyexc + checks \<times> vstate" where
  "ansible_lint_check env s =
     (case s of (checks, v) \<Rightarrow>
      (case ansible_lint env (cwd v) of
         Inr returncode \<Rightarrow>
           if returncode = 0
           then Inr (checks @ [(Mark_ok, ''ansible-lint is available'')],
                     append_passed Ansible ''ansible-lint available'' v)
           else Inr s
       | Inl e \<Rightarrow>
           if e = FileNotFoundError
           then Inr (checks @ [(Mark_warn, ''ansible-lint not installed - install for better validation'')],
                     append_warning Ansible ''Install ansible-lint'' v)
           else Inl e))"

definition validate_ansible :: "pyfmt \<Rightarrow> host \<Rightarrow> string \<Rightarrow> vstate \<Rightarrow> pyexc + vresult \<times> vstate" where
  "validate_ansible fmt env path v =
     (let playbooks = rglob env (resolve (cwd v) path) ''.yml''
                      @ rglob env (resolve (cwd v) path) ''.yaml''
      in if playbooks = [] then Inr (Skipped ''No Ansible files found'', v)
         else (case ansible_lint_check env (foldl (\<lambda>s playbook. ansible_playbook fmt playbook s) ([], v) playbooks) of
                 Inl e \<Rightarrow> Inl e
               | Inr (checks, v') \<Rightarrow> Inr (Completed checks, v')))"

subsection \<open>\<^verbatim>\<open>validate_kubernetes\<close>\<close>

text \<open>The three tests of the generator expressions, for one element of
  \<^verbatim>\<open>containers\<close> (source lines 184, 197 and 210).\<close>

definition container_has_limits :: "pyval \<Rightarrow> pyexc + bool" where
  "container_has_limits c =
     (case py_in ''resources'' c of
        Inl e \<Rightarrow> Inl e
      | Inr has_resources \<Rightarrow>
          if has_resources
          then bindE (py_get c ''resources'' (PDict [])) (py_in ''limits'')
          else Inr False)"

definition container_has_probe :: "pyval \<Rightarrow> pyexc + bool" where
  "container_has_probe c =
     (case py_in ''livenessProbe'' c of
        Inl e \<Rightarrow> Inl e
      | Inr liveness \<Rightarrow> if liveness then Inr True else py_in ''readinessProbe'' c)"

definition container_has_security_context :: "pyval \<Rightarrow> pyexc + bool" where
  "container_has_security_context c = py_in ''securityContext'' c"

text \<open>The kinds of the workload test (source line 179).\<close>

definition is_workload_kind :: "pyval \<Rightarrow> bool" where
  "is_workload_kind kind =
     (kind = PStr ''Deployment'' \<or> kind = PStr ''StatefulSet'' \<or> kind = PStr ''DaemonSet'')"

text \<open>\<^verbatim>\<open>doc.get('spec', {}).get('template', {}).get('spec', {}).get('containers', [])\<close>
  (source lines 180 and 181).\<close>

definition workload_containers :: "pyval \<Rightarrow> pyexc + pyval" where
  "workload_containers doc =
     bindE (bindE (bindE (py_get doc ''spec'' (PDict []))
                         (\<lambda>x. py_get x ''template'' (PDict [])))
                  (\<lambda>x. py_get x ''spec'' (PDict [])))
           (\<lambda>spec. py_get spec ''containers'' (PList []))"

text \<open>\<^verbatim>\<open>doc.get('metadata', {}).get('name', 'unnamed')\<close> (source line 176).\<close>

definition doc_name :: "pyval \<Rightarrow> pyexc + pyval" where
  "doc_name doc =
     bindE (py_get doc ''metadata'' (PDict [])) (\<lambda>m. py_get m ''name'' (PStr ''unnamed''))"

text \<open>
  The three checks of a workload (source lines 180 to 219), given the name of the manifest
  and the kind and name of the document. An exception leaves the entries of the checks before
  it in place.
\<close>

definition k8s_workload ::
  "pyfmt \<Rightarrow> string \<Rightarrow> pyval \<Rightarrow> pyval \<Rightarrow> pyval \<Rightarrow> checks \<times> vstate \<Rightarrow> (checks \<times> vstate) \<times> pyexc option" where
  "k8s_workload fmt mname kind name doc s =
     (let subject = mname @ '': '' @ py_str fmt kind @ ''/'' @ py_str fmt name
      in case workload_containers doc of
           Inl e \<Rightarrow> (s, Some e)
         | Inr containers \<Rightarrow>
        (case bindE (py_iter containers) (py_all container_has_limits) of
           Inl e \<Rightarrow> (s, Some e)
         | Inr has_limits \<Rightarrow>
             let s1 = (if has_limits
                       then (fst s @ [(Mark_ok, subject @ '' has resource limits'')],
                             append_passed Kubernetes (mname @ '': Resource limits'') (snd s))
                       else (fst s @ [(Mark_fail, subject @ '' missing resource limits'')],
                             append_failed Kubernetes (mname @ '': Add resource limits'') (snd s)))
             in (case bindE (py_iter containers) (py_all container_has_probe) of
                   Inl e \<Rightarrow> (s1, Some e)
                 | Inr has_health_checks \<Rightarrow>
                     let s2 = (if has_health_checks
                               then (fst s1 @ [(Mark_ok, subject @ '' has health checks'')],
                                     append_passed Kubernetes (mname @ '': Health checks'') (snd s1))
                               else (fst s1 @ [(Mark_warn, subject @ '' missing health checks'')],
                                     append_warning Kubernetes (mname @ '': Add health checks'') (snd s1)))
                     in (case bindE (py_iter containers) (py_any container_has_security_context) of
                           Inl e \<Rightarrow> (s2, Some e)
                         | Inr has_security_context \<Rightarrow>
                             if has_security_context
                             then ((fst s2 @ [(Mark_ok, subject @ '' has security context'')],
                                    append_passed Kubernetes (mname @ '': Security context'') (snd s2)), None)
                             else ((fst s2 @ [(Mark_warn, subject @ '' missing security context'')],
                                    append_warning Kubernetes (mname @ '': Add security context'') (snd s2)), None)))))"

text \<open>The body of the loop over the documents of one manifest (source lines 172 to 219).\<close>

definition k8s_doc :: "pyfmt \<Rightarrow> string \<Rightarrow> pyval \<Rightarrow> checks \<times> vstate \<Rightarrow> (checks \<times> vstate) \<times> pyexc option" where
  "k8s_doc fmt mname doc s =
     (if \<not> truthy doc then (s, None)
      else (case py_in ''kind'' doc of
              Inl e \<Rightarrow> (s, Some e)
            | Inr has_kind \<Rightarrow>
                if \<not> has_kind then (s, None)
                else (case py_get doc ''kind'' PNone of
                        Inl e \<Rightarrow> (s, Some e)
                      | Inr kind \<Rightarrow>
                     (case doc_name doc of
                        Inl e \<Rightarrow> (s, Some e)
                      | Inr name \<Rightarrow>
                          if is_workload_kind kind
                          then k8s_workload fmt mname kind name doc s
                          else (s, None)))))"

text \<open>The two handlers of the loop over the manifests (source lines 221 to 225).\<close>

definition k8s_except :: "pyfmt \<Rightarrow> string \<Rightarrow> pyexc \<Rightarrow> checks \<times> vstate \<Rightarrow> checks \<times> vstate" where
  "k8s_except fmt mname e s =
     (case s of (checks, v) \<Rightarrow>
      if e = YAMLError
      then (checks @ [(Mark_fail, mname @ '': YAML syntax error'')],
            append_failed Kubernetes (mname @ '': YAML error'') v)
      else (checks @ [(Mark_warn, mname @ '': Could not parse: '' @ str_exc fmt e)], v))"

text \<open>
  One manifest (source lines 167 to 225): the documents the loader yields are checked in
  turn, then the exception of the loader, if any, is raised into the same handlers.
\<close>

definition k8s_manifest :: "pyfmt \<Rightarrow> fsfile \<Rightarrow> checks \<times> vstate \<Rightarrow> checks \<times> vstate" where
  "k8s_manifest fmt manifest s =
     (case safe_load_all manifest of
        (docs, raised) \<Rightarrow>
          (case for_each (k8s_doc fmt (fname manifest)) docs s of
             (s', Some e) \<Rightarrow> k8s_except fmt (fname manifest) e s'
           | (s', None) \<Rightarrow>
               (case raised of
                  None \<Rightarrow> s'
                | Some e \<Rightarrow> k8s_except fmt (fname manifest) e s')))"

definition validate_kubernetes :: "pyfmt \<Rightarrow> host \<Rightarrow> string \<Rightarrow> vstate \<Rightarrow> vresult \<times> vstate" where
  "validate_kubernetes fmt env path v =
     (let manifests = rglob env (resolve (cwd v) path) ''.yaml''
                      @ rglob env (resolve (cwd v) path) ''.yml''
      in if manifests = [] then (Skipped ''No Kubernetes manifests found'', v)
         else (case foldl (\<lambda>s manifest. k8s_manifest fmt manifest s) ([], v) manifests of
                 (checks, v') \<Rightarrow> (Completed checks, v')))"

subsection \<open>\<^verbatim>\<open>main\<close> of the validator\<close>

record iv_args =
  terraform_path :: string
  ansible_path :: string
  k8s_path :: string
  json_output :: "string option"

text \<open>The three validations in the order of source lines 277 to 279.\<close>

definition run_validations :: "pyfmt \<Rightarrow> host \<Rightarrow> iv_args \<Rightarrow> vstate \<Rightarrow> pyexc + vstate" where
  "run_validations fmt env args v =
     (case validate_terraform fmt env (terraform_path args) v of
        Inl e \<Rightarrow> Inl e
      | Inr (r1, v1) \<Rightarrow>
          (case validate_ansible fmt env (ansible_path args) v1 of
             Inl e \<Rightarrow> Inl e
           | Inr (r2, v2) \<Rightarrow> Inr (snd (validate_kubernetes fmt env (k8s_path args) v2))))"

text \<open>\<^verbatim>\<open>sum(len(r['failed']) for r in validator.results.values())\<close>.\<close>

definition total_failures :: "(category \<Rightarrow> category_results) \<Rightarrow> nat" where
  "total_failures r = sum_list (map (\<lambda>c. length (failed (r c))) [Terraform, Ansible, Kubernetes])"

text \<open>
  \<^verbatim>\<open>main\<close>, after the arguments are parsed, started in the working directory \<open>dir\<close>. The
  report is printed from the results and changes nothing; the results are lists of strings,
  which \<^verbatim>\<open>json.dump\<close> always writes, so of the JSON output only \<^verbatim>\<open>open\<close> can raise.
\<close>

definition iv_main :: "pyfmt \<Rightarrow> host \<Rightarrow> iv_args \<Rightarrow> string \<Rightarrow> outcome" where
  "iv_main fmt env args dir =
     (case run_validations fmt env args \<lparr>results = initial_results, cwd = dir\<rparr> of
        Inl e \<Rightarrow> Uncaught e
      | Inr v \<Rightarrow>
          (case (case json_output args of
                   None \<Rightarrow> None
                 | Some out \<Rightarrow> if out = [] then None else open_write env (resolve (cwd v) out)) of
             Some e \<Rightarrow> Uncaught e
           | None \<Rightarrow> SysExit (if total_failures (results v) > 0 then 1 else 0)))"

section \<open>Notions of the specification\<close>

text \<open>The keys of an exported JSON object, in the order they were written.\<close>

fun object_keys :: "json \<Rightarrow> string list" where
  "object_keys (JObject kjs) = map fst kjs"
| "object_keys j = []"

text \<open>A value that \<^verbatim>\<open>json.dump\<close> can write.\<close>

definition serializable :: "pyval \<Rightarrow> bool" where
  "serializable v = (case json_dump v of Inl e \<Rightarrow> False | Inr j \<Rightarrow> True)"

text \<open>
  A container of a pod template as the Kubernetes schema has it: a mapping whose
  \<^verbatim>\<open>resources\<close>, when present, is a mapping. It has \<^verbatim>\<open>resources.limits\<close> when that
  mapping has the key \<^verbatim>\<open>limits\<close>.
\<close>

fun container_mapping :: "pyval \<Rightarrow> bool" where
  "container_mapping (PDict kvs) =
     (case map_of kvs ''resources'' of None \<Rightarrow> True | Some r \<Rightarrow> is_dict r)"
| "container_mapping v = False"

fun has_resource_limits :: "pyval \<Rightarrow> bool" where
  "has_resource_limits (PDict kvs) =
     (case map_of kvs ''resources'' of None \<Rightarrow> False | Some r \<Rightarrow> has_key ''limits'' r)"
| "has_resource_limits v = False"

text \<open>
  An instance descriptor as \<^verbatim>\<open>describe_instances\<close> returns it: it has an identifier, a
  type that is a string, and a state with a name. Its identifier, and whether it is stopped.
\<close>

definition state_name :: "pyval \<Rightarrow> pyexc + pyval" where
  "state_name instance = bindE (py_getitem instance ''State'') (\<lambda>s. py_getitem s ''Name'')"

definition well_formed_instance :: "pyval \<Rightarrow> bool" where
  "well_formed_instance instance =
     (case py_getitem instance ''InstanceId'' of
        Inl e \<Rightarrow> False
      | Inr instance_id \<Rightarrow>
          (case py_getitem instance ''InstanceType'' of
             Inr (PStr t) \<Rightarrow> (case state_name instance of Inl e \<Rightarrow> False | Inr n \<Rightarrow> True)
           | _ \<Rightarrow> False))"

definition instance_id_of :: "pyval \<Rightarrow> pyval" where
  "instance_id_of instance =
     (case py_getitem instance ''InstanceId'' of Inl e \<Rightarrow> PNone | Inr instance_id \<Rightarrow> instance_id)"

definition is_stopped :: "pyval \<Rightarrow> bool" where
  "is_stopped instance = (state_name instance = Inr (PStr ''stopped''))"

definition instances_of :: "pyval \<Rightarrow> pyval list" where
  "instances_of reservation =
     (case bindE (py_getitem reservation ''Instances'') py_iter of Inl e \<Rightarrow> [] | Inr is \<Rightarrow> is)"

definition well_formed_reservation :: "pyval \<Rightarrow> bool" where
  "well_formed_reservation reservation =
     (case bindE (py_getitem reservation ''Instances'') py_iter of
        Inl e \<Rightarrow> False
      | Inr is \<Rightarrow> list_all well_formed_instance is)"

definition is_stopped_issue :: "finding \<Rightarrow> bool" where
  "is_stopped_issue f = (issue f = ''Stopped instance still incurring EBS costs'')"

text \<open>
  The address a finding of the Elastic IP rule names: \<^verbatim>\<open>PublicIp\<close>, or
  \<^verbatim>\<open>Unknown\<close> when the descriptor has none.
\<close>

definition public_ip_of :: "pyval \<Rightarrow> pyval" where
  "public_ip_of eip =
     (case py_get eip ''PublicIp'' (PStr ''Unknown'') of Inl e \<Rightarrow> PStr ''Unknown'' | Inr ip \<Rightarrow> ip)"

text \<open>A descriptor that is a mapping and has not every one of the keys \<open>ks\<close>.\<close>

definition lacks_a_key :: "string list \<Rightarrow> pyval \<Rightarrow> bool" where
  "lacks_a_key ks d = (is_dict d \<and> list_ex (\<lambda>k. \<not> has_key k d) ks)"

text \<open>
  A state of a validation extends an earlier one when the checks and every list of the
  results have only grown at their ends.
\<close>

definition extends :: "checks \<times> vstate \<Rightarrow> checks \<times> vstate \<Rightarrow> bool" where
  "extends s s' =
     (prefix (fst s) (fst s') \<and>
      list_all (\<lambda>c. prefix (passed (results (snd s) c)) (passed (results (snd s') c))
                 \<and> prefix (failed (results (snd s) c)) (failed (results (snd s') c))
                 \<and> prefix (warnings (results (snd s) c)) (warnings (results (snd s') c)))
        [Terraform, Ansible, Kubernetes])"

text \<open>The keys of the object that \<^verbatim>\<open>export_json\<close> has written, if it has.\<close>

definition exported_keys :: "aws \<Rightarrow> string \<Rightarrow> analyzer \<Rightarrow> string list option" where
  "exported_keys env filename a =
     (case export_json env filename a of Inl e \<Rightarrow> None | Inr j \<Rightarrow> Some (object_keys j))"

section \<open>Example runs\<close>

text \<open>
  Inputs for evaluating the model: the parameters, an account, files and documents. The
  examples reach no float arithmetic; \<open>mean\<close> and \<open>times\<close> are given the answer for an
  operand that is no number.
\<close>

definition fmt0 :: pyfmt where
  "fmt0 = \<lparr>str_val = (\<lambda>v. ''<value>''), repr_float = (\<lambda>x. ''<float>''),
           format_1f = (\<lambda>x. ''<float>''), str_exc = (\<lambda>e. ''<exception>''),
           mean = (\<lambda>xs. Inl TypeError), times = (\<lambda>v r. Inl TypeError)\<rparr>"

text \<open>An account with no resource at all, every call answering.\<close>

definition aws_empty :: aws where
  "aws_empty =
     \<lparr>client_error = None,
      describe_instances = Inr (PDict [(''Reservations'', PList [])]),
      get_metric_statistics = (\<lambda>i. Inr (PDict [(''Datapoints'', PList [])])),
      describe_volumes = Inr (PDict [(''Volumes'', PList [])]),
      describe_snapshots = Inr (PDict [(''Snapshots'', PList [])]),
      describe_addresses = Inr (PDict [(''Addresses'', PList [])]),
      now = 1700000000000000,
      now_isoformat = ''2023-11-14T22:13:20'',
      open_w = (\<lambda>f. None)\<rparr>"

definition stopped_instance :: pyval where
  "stopped_instance =
     PDict [(''InstanceId'', PStr ''i-0abc''),
            (''InstanceType'', PStr ''m5.large''),
            (''State'', PDict [(''Code'', PInt 80), (''Name'', PStr ''stopped'')])]"

text \<open>The same account with one stopped instance.\<close>

definition aws_stopped :: aws where
  "aws_stopped =
     aws_empty\<lparr>describe_instances :=
       Inr (PDict [(''Reservations'', PList [PDict [(''Instances'', PList [stopped_instance])]])])\<rparr>"

text \<open>
  A response in which a descriptor without a type and a state comes before the stopped
  instance.
\<close>

definition aws_malformed_then_stopped :: aws where
  "aws_malformed_then_stopped =
     aws_empty\<lparr>describe_instances :=
       Inr (PDict [(''Reservations'', PList [PDict [(''Instances'',
              PList [PDict [(''InstanceId'', PStr ''i-0bad'')], stopped_instance])]])])\<rparr>"

text \<open>
  Two volumes: one whose descriptor has no \<^verbatim>\<open>Size\<close>, and an attached one of the old
  type \<^verbatim>\<open>standard\<close>; the account that has both, in this order, and the one that has
  only the second.
\<close>

definition volume_without_size :: pyval where
  "volume_without_size =
     PDict [(''VolumeId'', PStr ''vol-1''), (''VolumeType'', PStr ''gp3''),
            (''State'', PStr ''available'')]"

definition standard_volume :: pyval where
  "standard_volume =
     PDict [(''VolumeId'', PStr ''vol-2''), (''VolumeType'', PStr ''standard''),
            (''Size'', PInt 100), (''State'', PStr ''in-use'')]"

definition aws_two_volumes :: aws where
  "aws_two_volumes =
     aws_empty\<lparr>describe_volumes :=
       Inr (PDict [(''Volumes'', PList [volume_without_size, standard_volume])])\<rparr>"

definition aws_standard_volume :: aws where
  "aws_standard_volume =
     aws_empty\<lparr>describe_volumes := Inr (PDict [(''Volumes'', PList [standard_volume])])\<rparr>"

text \<open>An address that is not associated: the key \<^verbatim>\<open>AssociationId\<close> is absent.\<close>

definition free_address :: pyval where
  "free_address = PDict [(''PublicIp'', PStr ''203.0.113.7''), (''AllocationId'', PStr ''eipalloc-1'')]"

definition aws_free_address :: aws where
  "aws_free_address =
     aws_empty\<lparr>describe_addresses := Inr (PDict [(''Addresses'', PList [free_address])])\<rparr>"

definition analyzer0 :: analyzer where
  "analyzer0 = \<lparr>region = ''us-east-1'', findings = []\<rparr>"

definition two_findings :: analyzer where
  "two_findings =
     \<lparr>region = ''us-east-1'',
      findings = [stopped_finding (PStr ''i-0abc''), eip_finding (PStr ''203.0.113.7'')]\<rparr>"

text \<open>A host with no file, where every tool is installed and succeeds.\<close>

definition host_empty :: host where
  "host_empty =
     \<lparr>rglob = (\<lambda>dir suffix. []),
      terraform_fmt = (\<lambda>dir path. Inr 0),
      chdir = (\<lambda>dir path. None),
      terraform_validate = (\<lambda>dir. Inr (0, [])),
      ansible_lint = (\<lambda>dir. Inr 0),
      open_write = (\<lambda>f. None)\<rparr>"

text \<open>A Terraform file that cannot be decoded, and one that can and has no backend.\<close>

definition binary_tf :: fsfile where
  "binary_tf =
     \<lparr>fname = ''main.tf'', read_text = Inl UnicodeDecodeError,
      safe_load = Inl UnicodeDecodeError, safe_load_all = ([], Some UnicodeDecodeError)\<rparr>"

definition plain_tf :: fsfile where
  "plain_tf =
     \<lparr>fname = ''main.tf'', read_text = Inr ''provider aws { region = us-east-1 }'',
      safe_load = Inl YAMLError, safe_load_all = ([], Some YAMLError)\<rparr>"

definition host_binary_tf :: host where
  "host_binary_tf =
     host_empty\<lparr>rglob := (\<lambda>dir suffix.
       if dir = ''/work/projects'' \<and> suffix = ''.tf'' then [binary_tf] else [])\<rparr>"

definition host_plain_tf :: host where
  "host_plain_tf =
     host_empty\<lparr>rglob := (\<lambda>dir suffix.
       if dir = ''/work/projects'' \<and> suffix = ''.tf'' then [plain_tf] else [])\<rparr>"

text \<open>A host whose directory \<^verbatim>\<open>/work/projects\<close> holds a Terraform file and a playbook.\<close>

definition site_yml :: fsfile where
  "site_yml =
     \<lparr>fname = ''site.yml'', read_text = Inr ''- hosts: all'',
      safe_load = Inr (PList [PDict [(''hosts'', PStr ''all'')]]),
      safe_load_all = ([PList [PDict [(''hosts'', PStr ''all'')]]], None)\<rparr>"

definition host_tf_and_playbook :: host where
  "host_tf_and_playbook =
     host_empty\<lparr>rglob := (\<lambda>dir suffix.
       if dir = ''/work/projects'' \<and> suffix = ''.tf'' then [plain_tf]
       else if dir = ''/work/projects'' \<and> suffix = ''.yml'' then [site_yml]
       else [])\<rparr>"

definition default_args :: iv_args where
  "default_args =
     \<lparr>terraform_path = ''projects'', ansible_path = ''projects'', k8s_path = ''projects'',
      json_output = None\<rparr>"

definition vstate0 :: vstate where
  "vstate0 = \<lparr>results = initial_results, cwd = ''/work''\<rparr>"

text \<open>
  Three Deployments: one whose only container has no \<^verbatim>\<open>resources\<close>, one whose container
  has limits, and one with an empty list of containers; and one that has no \<^verbatim>\<open>spec\<close>.
\<close>

definition deployment_of :: "pyval list \<Rightarrow> pyval" where
  "deployment_of containers =
     PDict [(''apiVersion'', PStr ''apps/v1''),
            (''kind'', PStr ''Deployment''),
            (''metadata'', PDict [(''name'', PStr ''web'')]),
            (''spec'', PDict [(''template'',
               PDict [(''spec'', PDict [(''containers'', PList containers)])])])]"

definition bare_container :: pyval where
  "bare_container = PDict [(''name'', PStr ''app''), (''image'', PStr ''nginx'')]"

definition limited_container :: pyval where
  "limited_container =
     PDict [(''name'', PStr ''app''),
            (''resources'', PDict [(''limits'', PDict [(''cpu'', PStr ''500m'')])])]"

text \<open>
  A container whose \<^verbatim>\<open>resources\<close> key is there with no value, which YAML loads as
  \<^verbatim>\<open>None\<close>, a manifest with a Deployment of that container, and a host where
  \<^verbatim>\<open>/work/projects\<close> holds that manifest.
\<close>

definition null_resources_container :: pyval where
  "null_resources_container = PDict [(''name'', PStr ''app''), (''resources'', PNone)]"

definition web_yaml :: fsfile where
  "web_yaml =
     \<lparr>fname = ''web.yaml'', read_text = Inr ''kind: Deployment'',
      safe_load = Inr (deployment_of [null_resources_container]),
      safe_load_all = ([deployment_of [null_resources_container]], None)\<rparr>"

definition host_null_resources :: host where
  "host_null_resources =
     host_empty\<lparr>rglob := (\<lambda>dir suffix.
       if dir = ''/work/projects'' \<and> suffix = ''.yaml'' then [web_yaml] else [])\<rparr>"



text \<open>
  A Service, which the checks pass over, and a host where \<^verbatim>\<open>/work/projects\<close> holds
  one manifest with the documents \<open>docs\<close>.
\<close>

definition service_doc :: pyval where
  "service_doc =
     PDict [(''kind'', PStr ''Service''), (''metadata'', PDict [(''name'', PStr ''web'')])]"

definition manifest_of :: "pyval list \<Rightarrow> fsfile" where
  "manifest_of docs =
     \<lparr>fname = ''web.yaml'', read_text = Inr ''kind: Service'',
      safe_load = Inl YAMLError, safe_load_all = (docs, None)\<rparr>"

definition host_of_manifest :: "pyval list \<Rightarrow> host" where
  "host_of_manifest docs =
     host_empty\<lparr>rglob := (\<lambda>dir suffix.
       if dir = ''/work/projects'' \<and> suffix = ''.yaml'' then [manifest_of docs] else [])\<rparr>"

definition deployment_without_spec :: pyval where
  "deployment_without_spec =
     PDict [(''kind'', PStr ''Deployment''), (''metadata'', PDict [(''name'', PStr ''web'')])]"

section \<open>The aggregator of the cost analyzer\<close>

lemma map_of_by_type_append:
  "map_of (by_type_append f m) t =
     (if t = ftype f then Some ((case map_of m t of None \<Rightarrow> [] | Some xs \<Rightarrow> xs) @ [f])
      else map_of m t)"
  by (induction f m rule: by_type_append.induct) auto

lemma keys_by_type_append:
  "map fst (by_type_append f m) =
     (if ftype f \<in> set (map fst m) then map fst m else map fst m @ [ftype f])"
  by (induction f m rule: by_type_append.induct) auto

lemma map_of_foldl_by_type:
  "map_of (foldl (\<lambda>by_type finding. by_type_append finding by_type) m fs) t =
     (case map_of m t of
        None \<Rightarrow> if \<exists>f\<in>set fs. ftype f = t then Some (filter (\<lambda>f. ftype f = t) fs) else None
      | Some xs \<Rightarrow> Some (xs @ filter (\<lambda>f. ftype f = t) fs))"
proof (induction fs arbitrary: m)
  case Nil
  then show ?case by (simp split: option.splits)
next
  case (Cons f fs)
  show ?case
    by (simp add: Cons.IH map_of_by_type_append split: option.splits)
qed

lemma distinct_foldl_by_type:
  "distinct (map fst m) \<Longrightarrow>
   distinct (map fst (foldl (\<lambda>by_type finding. by_type_append finding by_type) m fs))"
proof (induction fs arbitrary: m)
  case Nil
  then show ?case by simp
next
  case (Cons f fs)
  have "distinct (map fst (by_type_append f m))"
    using Cons.prems by (simp add: keys_by_type_append)
  then show ?case using Cons.IH by simp
qed

text \<open>
  Claim C8. The grouping inside \<^verbatim>\<open>generate_report\<close> has every category once as a
  key; what it holds for a category is the list of exactly the findings of that category, in
  the order they came, a finding that came twice being there twice; a category with no
  finding is no key. The report is made of this grouping whenever there is a finding.
\<close>

theorem aggregator_groups_in_arrival_order:
  "distinct (map fst (group_by_type fs)) \<and>
   map_of (group_by_type fs) t =
     (if t \<in> set (map ftype fs) then Some (filter (\<lambda>f. ftype f = t) fs) else None) \<and>
   generate_report a =
     (if findings a = [] then None else Some (group_by_type (findings a), length (findings a)))"
proof -
  have "distinct (map fst (group_by_type fs))"
    unfolding group_by_type_def by (rule distinct_foldl_by_type) simp
  moreover have "map_of (group_by_type fs) t =
     (if t \<in> set (map ftype fs) then Some (filter (\<lambda>f. ftype f = t) fs) else None)"
    unfolding group_by_type_def by (auto simp: map_of_foldl_by_type)
  ultimately show ?thesis by (simp add: generate_report_def)
qed

theorem aggregator_groups_in_arrival_order_witness:
  "map_of (group_by_type
      [stopped_finding (PStr ''i-1''), eip_finding (PStr ''203.0.113.7''),
       stopped_finding (PStr ''i-2''), stopped_finding (PStr ''i-1'')]) ''EC2''
   = Some [stopped_finding (PStr ''i-1''), stopped_finding (PStr ''i-2''), stopped_finding (PStr ''i-1'')]"
  using aggregator_groups_in_arrival_order
    [of "[stopped_finding (PStr ''i-1''), eip_finding (PStr ''203.0.113.7''),
       stopped_finding (PStr ''i-2''), stopped_finding (PStr ''i-1'')]" "''EC2''"]
  by (simp add: stopped_finding_def eip_finding_def)

section \<open>The JSON export of the cost analyzer\<close>

lemma json_round_trip:
  "json_dump v = Inr j \<longrightarrow> json_load j = v"
  "json_dump_list vs = Inr js \<longrightarrow> json_load_list js = vs"
  "json_dump_items kvs = Inr kjs \<longrightarrow> json_load_items kjs = kvs"
  by (induction v and vs and kvs arbitrary: j and js and kjs
      rule: json_dump_json_dump_list_json_dump_items.induct)
     (auto split: sum.splits)

lemma json_dump_list_length:
  "json_dump_list vs = Inr js \<Longrightarrow> length js = length vs"
  by (induction vs arbitrary: js) (auto split: sum.splits)

lemma export_json_Inr:
  assumes "export_json env filename a = Inr j"
  shows "open_w env filename = None" and "json_dump (export_document env a) = Inr j"
  using assms by (auto simp: export_json_def split: option.splits)

lemma type_of_finding_dict:
  "py_getitem (finding_dict f) ''type'' = Inr (PStr (ftype f))"
  by (simp add: finding_dict_def)

text \<open>
  Claim C5. When \<^verbatim>\<open>export_json\<close> has written the file, loading the file gives a
  dictionary whose \<^verbatim>\<open>findings\<close> is a list as long as the findings in memory, whose
  \<^verbatim>\<open>total_findings\<close> is that length, and whose findings have, as a multiset, the
  \<^verbatim>\<open>type\<close> values of the findings in memory.
\<close>

theorem export_json_round_trip:
  assumes "export_json env filename a = Inr j"
  shows "\<exists>xs. py_getitem (json_load j) ''findings'' = Inr (PList xs)
            \<and> length xs = length (findings a)
            \<and> py_getitem (json_load j) ''total_findings'' = Inr (PInt (int (length (findings a))))
            \<and> mset (map (\<lambda>x. py_getitem x ''type'') xs)
                = mset (map (\<lambda>f. Inr (PStr (ftype f))) (findings a))"
proof -
  have "json_load j = export_document env a"
    using export_json_Inr(2)[OF assms] json_round_trip(1) by blast
  moreover have "map (\<lambda>x. py_getitem x ''type'') (map finding_dict (findings a))
      = map (\<lambda>f. Inr (PStr (ftype f))) (findings a)"
    by (simp add: type_of_finding_dict)
  ultimately show ?thesis
    by (simp add: export_document_def del: map_map mset_map)
qed

theorem export_json_round_trip_witness:
  "\<exists>j xs. export_json aws_empty ''cost-analysis.json'' two_findings = Inr j
     \<and> py_getitem (json_load j) ''findings'' = Inr (PList xs)
     \<and> length xs = 2
     \<and> py_getitem (json_load j) ''total_findings'' = Inr (PInt 2)
     \<and> mset (map (\<lambda>x. py_getitem x ''type'') xs) = {#Inr (PStr ''EC2''), Inr (PStr ''EIP'')#}"
proof -
  obtain j where j: "export_json aws_empty ''cost-analysis.json'' two_findings = Inr j"
    by (simp add: export_json_def aws_empty_def export_document_def two_findings_def
        finding_dict_def stopped_finding_def eip_finding_def)
  from export_json_round_trip[OF j] j show ?thesis
    by (auto simp: two_findings_def stopped_finding_def eip_finding_def)
qed

text \<open>
  Claim C4, as the specification has it, names the key \<^verbatim>\<open>scope\<close>. The script writes
  the key \<^verbatim>\<open>region\<close>: for two findings the keys of the exported object are
  \<^verbatim>\<open>analysis_date\<close>, \<^verbatim>\<open>region\<close>, \<^verbatim>\<open>total_findings\<close> and \<^verbatim>\<open>findings\<close>.
\<close>

theorem export_json_keys_counterexample:
  "exported_keys aws_empty ''cost-analysis.json'' two_findings
     \<noteq> Some [''analysis_date'', ''scope'', ''total_findings'', ''findings'']
   \<and> exported_keys aws_empty ''cost-analysis.json'' two_findings
     = Some [''analysis_date'', ''region'', ''total_findings'', ''findings'']"
  by (simp add: exported_keys_def export_json_def aws_empty_def export_document_def two_findings_def
        finding_dict_def stopped_finding_def eip_finding_def)

text \<open>
  Claim C4, amended. When \<^verbatim>\<open>export_json\<close> has written the file, the object has exactly
  the keys \<^verbatim>\<open>analysis_date\<close>, \<^verbatim>\<open>region\<close>, \<^verbatim>\<open>total_findings\<close> and
  \<^verbatim>\<open>findings\<close>, in this order: the date string, the region of the analyzer, the number
  of findings, and the array of the findings, one JSON object for each finding in memory.
\<close>

theorem export_json_keys:
  assumes "export_json env filename a = Inr j"
  shows "object_keys j = [''analysis_date'', ''region'', ''total_findings'', ''findings'']
         \<and> (\<exists>js. j = JObject [(''analysis_date'', JString (now_isoformat env)),
                               (''region'', JString (region a)),
                               (''total_findings'', JInt (int (length (findings a)))),
                               (''findings'', JArray js)]
                 \<and> json_dump_list (map finding_dict (findings a)) = Inr js
                 \<and> length js = length (findings a))"
proof -
  from export_json_Inr(2)[OF assms]
  obtain js where js: "json_dump_list (map finding_dict (findings a)) = Inr js"
    and j: "j = JObject [(''analysis_date'', JString (now_isoformat env)),
                               (''region'', JString (region a)),
                               (''total_findings'', JInt (int (length (findings a)))),
                               (''findings'', JArray js)]"
    by (auto simp: export_document_def split: sum.splits)
  from json_dump_list_length[OF js] js j show ?thesis by simp
qed

theorem export_json_keys_witness:
  "\<exists>j. export_json aws_empty ''cost-analysis.json'' two_findings = Inr j
      \<and> object_keys j = [''analysis_date'', ''region'', ''total_findings'', ''findings'']"
proof -
  obtain j where j: "export_json aws_empty ''cost-analysis.json'' two_findings = Inr j"
    by (simp add: export_json_def aws_empty_def export_document_def two_findings_def
        finding_dict_def stopped_finding_def eip_finding_def)
  from export_json_keys[OF j] j show ?thesis by blast
qed

section \<open>The checks of a Kubernetes workload\<close>

lemma container_has_limits_mapping:
  "container_mapping c \<Longrightarrow> container_has_limits c = Inr (has_resource_limits c)"
proof (cases c)
  case (PDict kvs)
  assume m: "container_mapping c"
  show ?thesis
  proof (cases "map_of kvs ''resources''")
    case None
    then have "''resources'' \<notin> fst ` set kvs" by (simp add: map_of_eq_None_iff)
    with None PDict show ?thesis by (simp add: container_has_limits_def)
  next
    case (Some r)
    then have "''resources'' \<in> fst ` set kvs" by (metis map_of_eq_None_iff option.distinct(1))
    moreover from m PDict Some obtain rs where "r = PDict rs" by (cases r) auto
    ultimately show ?thesis using PDict Some by (simp add: container_has_limits_def bindE_def)
  qed
qed simp_all

lemma py_all_limits:
  "\<forall>c\<in>set cs. container_mapping c \<Longrightarrow>
   py_all container_has_limits cs = Inr (list_all has_resource_limits cs)"
  by (induction cs) (simp_all add: container_has_limits_mapping)

lemma container_mapping_is_dict: "container_mapping c \<Longrightarrow> is_dict c"
  by (cases c) simp_all

lemma container_has_probe_dict:
  "is_dict c \<Longrightarrow>
   container_has_probe c = Inr (has_key ''livenessProbe'' c \<or> has_key ''readinessProbe'' c)"
  by (cases c) (simp_all add: container_has_probe_def)

lemma py_all_probe:
  "\<forall>c\<in>set cs. is_dict c \<Longrightarrow>
   py_all container_has_probe cs
     = Inr (list_all (\<lambda>c. has_key ''livenessProbe'' c \<or> has_key ''readinessProbe'' c) cs)"
  by (induction cs) (simp_all add: container_has_probe_dict)

lemma container_has_security_context_dict:
  "is_dict c \<Longrightarrow> container_has_security_context c = Inr (has_key ''securityContext'' c)"
  by (cases c) (simp_all add: container_has_security_context_def)

lemma py_any_security_context:
  "\<forall>c\<in>set cs. is_dict c \<Longrightarrow>
   py_any container_has_security_context cs = Inr (list_ex (has_key ''securityContext'') cs)"
  by (induction cs) (simp_all add: container_has_security_context_dict)

lemma k8s_workload_mappings:
  assumes "workload_containers doc = Inr (PList cs)" and "\<forall>c\<in>set cs. container_mapping c"
  shows "k8s_workload fmt mname kind name doc (checks, v) =
     (let subject = mname @ '': '' @ py_str fmt kind @ ''/'' @ py_str fmt name;
          s1 = (if list_all has_resource_limits cs
                then (checks @ [(Mark_ok, subject @ '' has resource limits'')],
                      append_passed Kubernetes (mname @ '': Resource limits'') v)
                else (checks @ [(Mark_fail, subject @ '' missing resource limits'')],
                      append_failed Kubernetes (mname @ '': Add resource limits'') v));
          s2 = (if list_all (\<lambda>c. has_key ''livenessProbe'' c \<or> has_key ''readinessProbe'' c) cs
                then (fst s1 @ [(Mark_ok, subject @ '' has health checks'')],
                      append_passed Kubernetes (mname @ '': Health checks'') (snd s1))
                else (fst s1 @ [(Mark_warn, subject @ '' missing health checks'')],
                      append_warning Kubernetes (mname @ '': Add health checks'') (snd s1)));
          s3 = (if list_ex (has_key ''securityContext'') cs
                then (fst s2 @ [(Mark_ok, subject @ '' has security context'')],
                      append_passed Kubernetes (mname @ '': Security context'') (snd s2))
                else (fst s2 @ [(Mark_warn, subject @ '' missing security context'')],
                      append_warning Kubernetes (mname @ '': Add security context'') (snd s2)))
      in (s3, None))"
proof -
  have d: "\<forall>c\<in>set cs. is_dict c" using assms(2) container_mapping_is_dict by blast
  show ?thesis
    unfolding k8s_workload_def
    by (simp add: assms(1) bindE_def py_all_limits[OF assms(2)] py_all_probe[OF d]
        py_any_security_context[OF d] Let_def)
qed

lemma k8s_doc_workload:
  assumes "map_of kvs ''kind'' = Some kind" and "is_workload_kind kind"
    and "doc_name (PDict kvs) = Inr name"
  shows "k8s_doc fmt mname (PDict kvs) s = k8s_workload fmt mname kind name (PDict kvs) s"
proof -
  have "''kind'' \<in> fst ` set kvs" using assms(1) by (metis map_of_eq_None_iff option.distinct(1))
  moreover then have "kvs \<noteq> []" by auto
  ultimately show ?thesis using assms by (simp add: k8s_doc_def)
qed

lemma workload_kind_str:
  "is_workload_kind (PStr k) \<longleftrightarrow> k \<in> {''Deployment'', ''StatefulSet'', ''DaemonSet''}"
  by (auto simp: is_workload_kind_def)


lemma results_append_passed:
  "results (append_passed c x v) d =
     (if d = c then (results v c)\<lparr>passed := passed (results v c) @ [x]\<rparr> else results v d)"
  by (simp add: append_passed_def)

lemma results_append_failed:
  "results (append_failed c x v) d =
     (if d = c then (results v c)\<lparr>failed := failed (results v c) @ [x]\<rparr> else results v d)"
  by (simp add: append_failed_def)

lemma results_append_warning:
  "results (append_warning c x v) d =
     (if d = c then (results v c)\<lparr>warnings := warnings (results v c) @ [x]\<rparr> else results v d)"
  by (simp add: append_warning_def)

lemma k8s_doc_resource_limits:
  assumes "map_of kvs ''kind'' = Some (PStr k)"
    and "k \<in> {''Deployment'', ''StatefulSet'', ''DaemonSet''}"
    and "doc_name (PDict kvs) = Inr name"
    and "workload_containers (PDict kvs) = Inr (PList cs)"
    and "\<forall>c\<in>set cs. container_mapping c"
    and "k8s_doc fmt mname (PDict kvs) (checks, v) = ((checks', v'), e)"
  shows "e = None
    \<and> ((\<exists>c\<in>set cs. \<not> has_resource_limits c) \<longrightarrow>
          failed (results v' Kubernetes)
            = failed (results v Kubernetes) @ [mname @ '': Add resource limits'']
        \<and> (\<exists>rest. checks' = checks @
              (Mark_fail, mname @ '': '' @ k @ ''/'' @ py_str fmt name @ '' missing resource limits'') # rest)
        \<and> (\<exists>ps. passed (results v' Kubernetes) = passed (results v Kubernetes) @ ps
              \<and> mname @ '': Resource limits'' \<notin> set ps))
    \<and> ((\<forall>c\<in>set cs. has_resource_limits c) \<longrightarrow>
          failed (results v' Kubernetes) = failed (results v Kubernetes)
        \<and> (\<exists>rest. checks' = checks @
              (Mark_ok, mname @ '': '' @ k @ ''/'' @ py_str fmt name @ '' has resource limits'') # rest)
        \<and> (\<exists>ps. passed (results v' Kubernetes)
              = passed (results v Kubernetes) @ (mname @ '': Resource limits'') # ps))"
proof -
  have w: "is_workload_kind (PStr k)" using assms(2) by (simp only: workload_kind_str)
  have all: "list_all has_resource_limits cs \<longleftrightarrow> (\<forall>c\<in>set cs. has_resource_limits c)"
    by (simp add: list_all_iff)
  have r: "k8s_doc fmt mname (PDict kvs) (checks, v)
      = k8s_workload fmt mname (PStr k) name (PDict kvs) (checks, v)"
    by (rule k8s_doc_workload[OF assms(1) w assms(3)])
  note wl = k8s_workload_mappings[OF assms(4) assms(5), of fmt mname "PStr k" name checks v]
  show ?thesis
  proof (cases "\<forall>c\<in>set cs. has_resource_limits c")
    case True
    then have l: "list_all has_resource_limits cs" using all by simp
    from assms(6) show ?thesis
      unfolding r wl using True l
      by (auto simp: Let_def py_str_def results_append_passed results_append_failed
          results_append_warning split: if_splits)
  next
    case False
    then have l: "\<not> list_all has_resource_limits cs" using all by simp
    from assms(6) show ?thesis
      unfolding r wl using False l
      by (auto simp: Let_def py_str_def results_append_passed results_append_failed
          results_append_warning split: if_splits)
  qed
qed


section \<open>Failures and the exit code\<close>

text \<open>
  Claim C2 at a Terraform file that cannot be decoded: \<^verbatim>\<open>read_text\<close> raises inside
  the first check of \<^verbatim>\<open>validate_terraform\<close>, where no handler is; the exception leaves
  the method and \<^verbatim>\<open>main\<close>, and the run ends before Ansible and Kubernetes are looked at.
\<close>

theorem unreadable_terraform_file_aborts_run:
  "validate_terraform fmt0 host_binary_tf ''projects'' vstate0 = Inl UnicodeDecodeError
   \<and> iv_main fmt0 host_binary_tf default_args ''/work'' = Uncaught UnicodeDecodeError"
  by (simp add: iv_main_def run_validations_def validate_terraform_def host_binary_tf_def
      host_empty_def default_args_def vstate0_def resolve_def tf_remote_state_def mentions_def
      binary_tf_def bindE_def)

lemma total_failures_pos: "0 < total_failures r \<longleftrightarrow> (\<exists>c. failed (r c) \<noteq> [])"
proof
  assume "0 < total_failures r"
  then show "\<exists>c. failed (r c) \<noteq> []" by (auto simp: total_failures_def)
next
  assume "\<exists>c. failed (r c) \<noteq> []"
  then obtain c where "failed (r c) \<noteq> []" ..
  then show "0 < total_failures r" by (cases c) (simp_all add: total_failures_def)
qed

text \<open>
  Claim C1, as the specification has it, covers the cost analyzer: a run of it that has a
  finding still ends with the exit code 0.
\<close>

theorem exit_code_counterexample:
  "findings (run_analyses fmt0 aws_stopped analyzer0) = [stopped_finding (PStr ''i-0abc'')]
   \<and> exit_code (cca_main fmt0 aws_stopped \<lparr>arg_region = ''us-east-1'', arg_export = None\<rparr>) = 0"
  by (simp add: cca_main_def run_analyses_def aws_stopped_def aws_empty_def analyzer0_def
      analyze_ec2_instances_def analyze_ebs_volumes_def analyze_snapshots_def
      analyze_elastic_ips_def ec2_reservation_def ec2_instance_def stopped_instance_def
      bindE_def append_finding_def)

text \<open>
  Claim C1, amended. A run of the validator that no exception ends has the exit code 1 when
  some category of its results has a failed entry, and 0 otherwise. A run of the cost analyzer
  that no exception ends has the exit code 0, whatever it found.
\<close>

theorem exit_code_of_each_script:
  "(run_validations fmt env args \<lparr>results = initial_results, cwd = dir\<rparr> = Inr v
      \<and> (\<forall>e. iv_main fmt env args dir \<noteq> Uncaught e)
    \<longrightarrow> exit_code (iv_main fmt env args dir) = (if \<exists>c. failed (results v c) \<noteq> [] then 1 else 0))
   \<and> ((\<forall>e. cca_main afmt aenv cargs \<noteq> Uncaught e) \<longrightarrow> exit_code (cca_main afmt aenv cargs) = 0)"
proof (intro conjI impI)
  assume h: "run_validations fmt env args \<lparr>results = initial_results, cwd = dir\<rparr> = Inr v
      \<and> (\<forall>e. iv_main fmt env args dir \<noteq> Uncaught e)"
  then have "iv_main fmt env args dir = SysExit (if total_failures (results v) > 0 then 1 else 0)"
    by (auto simp: iv_main_def split: option.splits if_splits)
  then show "exit_code (iv_main fmt env args dir) = (if \<exists>c. failed (results v c) \<noteq> [] then 1 else 0)"
    by (simp add: total_failures_pos)
next
  assume "\<forall>e. cca_main afmt aenv cargs \<noteq> Uncaught e"
  then have "cca_main afmt aenv cargs = Returned"
    by (auto simp: cca_main_def Let_def split: option.splits if_splits sum.splits)
  then show "exit_code (cca_main afmt aenv cargs) = 0" by simp
qed

lemma run_plain_tf:
  "\<exists>v. run_validations fmt0 host_plain_tf default_args \<lparr>results = initial_results, cwd = ''/work''\<rparr> = Inr v
     \<and> failed (results v Terraform) = [''Missing remote state backend'']"
  by (simp add: run_validations_def validate_terraform_def validate_ansible_def
      validate_kubernetes_def host_plain_tf_def host_empty_def default_args_def resolve_def
      tf_remote_state_def tf_provider_versions_def tf_fmt_def tf_validate_def mentions_def
      plain_tf_def bindE_def initial_results_def append_failed_def append_passed_def
      append_warning_def)

theorem exit_code_of_each_script_witness:
  "exit_code (iv_main fmt0 host_plain_tf default_args ''/work'') = 1
   \<and> exit_code (iv_main fmt0 host_empty default_args ''/work'') = 0
   \<and> exit_code (cca_main fmt0 aws_stopped \<lparr>arg_region = ''us-east-1'', arg_export = None\<rparr>) = 0"
proof -
  obtain v where v: "run_validations fmt0 host_plain_tf default_args
        \<lparr>results = initial_results, cwd = ''/work''\<rparr> = Inr v"
    and f: "failed (results v Terraform) = [''Missing remote state backend'']"
    using run_plain_tf by blast
  have n: "\<forall>e. iv_main fmt0 host_plain_tf default_args ''/work'' \<noteq> Uncaught e"
    using v by (simp add: iv_main_def default_args_def)
  have "\<exists>c. failed (results v c) \<noteq> []" using f by (intro exI[of _ Terraform]) simp
  then have 1: "exit_code (iv_main fmt0 host_plain_tf default_args ''/work'') = 1"
    using exit_code_of_each_script[of fmt0 host_plain_tf default_args "''/work''" v] v n by simp
  have v0: "run_validations fmt0 host_empty default_args \<lparr>results = initial_results, cwd = ''/work''\<rparr>
      = Inr \<lparr>results = initial_results, cwd = ''/work''\<rparr>"
    by (simp add: run_validations_def validate_terraform_def validate_ansible_def
      validate_kubernetes_def host_empty_def default_args_def)
  have n0: "\<forall>e. iv_main fmt0 host_empty default_args ''/work'' \<noteq> Uncaught e"
    using v0 by (simp add: iv_main_def default_args_def)
  have 2: "exit_code (iv_main fmt0 host_empty default_args ''/work'') = 0"
    using exit_code_of_each_script[of fmt0 host_empty default_args "''/work''"
        "\<lparr>results = initial_results, cwd = ''/work''\<rparr>"] v0 n0
    by (simp add: initial_results_def)
  have a: "\<forall>e. cca_main fmt0 aws_stopped \<lparr>arg_region = ''us-east-1'', arg_export = None\<rparr> \<noteq> Uncaught e"
    by (simp add: cca_main_def aws_stopped_def aws_empty_def)
  have 3: "exit_code (cca_main fmt0 aws_stopped \<lparr>arg_region = ''us-east-1'', arg_export = None\<rparr>) = 0"
    using exit_code_of_each_script[where afmt = fmt0 and aenv = aws_stopped
        and cargs = "\<lparr>arg_region = ''us-east-1'', arg_export = None\<rparr>"] a by blast
  from 1 2 3 show ?thesis by simp
qed

section \<open>The working directory\<close>

lemma cwd_append [simp]:
  "cwd (append_passed c x v) = cwd v"
  "cwd (append_failed c x v) = cwd v"
  "cwd (append_warning c x v) = cwd v"
  by (simp_all add: append_passed_def append_failed_def append_warning_def)

lemma tf_remote_state_cwd:
  "tf_remote_state tf_files (checks, v) = Inr (checks', v') \<Longrightarrow> cwd v' = cwd v"
  by (auto simp: tf_remote_state_def split: sum.splits if_splits)

lemma tf_provider_versions_cwd:
  "tf_provider_versions tf_files (checks, v) = Inr (checks', v') \<Longrightarrow> cwd v' = cwd v"
  by (auto simp: tf_provider_versions_def split: sum.splits if_splits)

lemma tf_resource_tagging_cwd:
  "tf_resource_tagging tf_files (checks, v) = Inr (checks', v') \<Longrightarrow> cwd v' = cwd v"
proof (induction tf_files arbitrary: checks v)
  case Nil
  then show ?case by simp
next
  case (Cons f fs)
  then show ?case by (fastforce split: sum.splits if_splits)
qed

lemma tf_fmt_cwd:
  "tf_fmt env path (checks, v) = Inr (checks', v') \<Longrightarrow> cwd v' = cwd v"
  by (auto simp: tf_fmt_def split: sum.splits if_splits)

lemma tf_validate_cwd:
  "cwd (snd (tf_validate fmt env path (checks, v)))
     = (if chdir env (cwd v) path = None then resolve (cwd v) path else cwd v)"
  by (auto simp: tf_validate_def Let_def split: option.splits sum.splits prod.splits)

lemma validate_terraform_cwd:
  assumes "validate_terraform fmt env path v = Inr (Completed cs, v')"
  shows "cwd v' = (if chdir env (cwd v) path = None then resolve (cwd v) path else cwd v)"
proof -
  let ?fs = "rglob env (resolve (cwd v) path) ''.tf''"
  from assms obtain c1 v1 c2 v2 c3 v3 c4 v4 where
    1: "tf_remote_state ?fs ([], v) = Inr (c1, v1)" and
    2: "tf_provider_versions ?fs (c1, v1) = Inr (c2, v2)" and
    3: "tf_resource_tagging ?fs (c2, v2) = Inr (c3, v3)" and
    4: "tf_fmt env path (c3, v3) = Inr (c4, v4)" and
    5: "tf_validate fmt env path (c4, v4) = (cs, v')"
    by (auto simp: validate_terraform_def Let_def bindE_def
        split: if_splits sum.splits prod.splits)
  have "cwd v4 = cwd v"
    using tf_remote_state_cwd[OF 1] tf_provider_versions_cwd[OF 2]
      tf_resource_tagging_cwd[OF 3] tf_fmt_cwd[OF 4] by simp
  moreover have "cwd v' = cwd (snd (tf_validate fmt env path (c4, v4)))" using 5 by simp
  ultimately show ?thesis by (simp add: tf_validate_cwd)
qed

lemma for_each_frame:
  assumes "\<And>x s. P (fst (body x s)) = P s"
  shows "P (fst (for_each body xs s)) = P s"
proof (induction xs arbitrary: s)
  case Nil
  then show ?case by simp
next
  case (Cons x xs)
  obtain s' e where b: "body x s = (s', e)" by (cases "body x s")
  have "P s' = P s" using assms[of x s] b by simp
  then show ?case using Cons.IH[of s'] b by (cases e) simp_all
qed

lemma foldl_frame:
  assumes "\<And>x s. P (step s x) = P s"
  shows "P (foldl step s xs) = P s"
  by (induction xs arbitrary: s) (simp_all add: assms)

lemma ansible_play_cwd: "cwd (snd (fst (ansible_play name play s))) = cwd (snd s)"
  by (cases s) (auto simp: ansible_play_def Let_def split: sum.splits)

lemma ansible_except_cwd: "cwd (snd (ansible_except fmt name e s)) = cwd (snd s)"
  by (cases s) (simp add: ansible_except_def)

lemma ansible_playbook_cwd: "cwd (snd (ansible_playbook fmt playbook s)) = cwd (snd s)"
proof -
  have f: "cwd (snd (fst (for_each (ansible_play (fname playbook)) plays s))) = cwd (snd s)" for plays
    by (rule for_each_frame[where P = "\<lambda>s. cwd (snd s)"]) (rule ansible_play_cwd)
  show ?thesis
    unfolding ansible_playbook_def
    by (auto simp: ansible_except_cwd split: sum.splits pyval.splits prod.splits option.splits
        dest: arg_cong[where f = "\<lambda>r. cwd (snd (fst r))"] simp: f)
qed

lemma validate_ansible_cwd:
  assumes "validate_ansible fmt env path v = Inr (r, v')"
  shows "cwd v' = cwd v"
proof -
  have f: "cwd (snd (foldl (\<lambda>s playbook. ansible_playbook fmt playbook s) s ps)) = cwd (snd s)" for ps s
    using foldl_frame[where P = "\<lambda>s. cwd (snd s)" and step = "\<lambda>s playbook. ansible_playbook fmt playbook s"
        and s = s and xs = ps]
    by (simp add: ansible_playbook_cwd)
  have l: "ansible_lint_check env s = Inr (c', w) \<Longrightarrow> cwd w = cwd (snd s)" for s c' w
    by (cases s) (auto simp: ansible_lint_check_def split: sum.splits if_splits)
  from assms show ?thesis
    by (auto simp: validate_ansible_def Let_def split: if_splits sum.splits prod.splits
        dest!: l simp: f)
qed

lemma k8s_workload_cwd:
  "cwd (snd (fst (k8s_workload fmt mname kind name doc s))) = cwd (snd s)"
  by (cases s) (auto simp: k8s_workload_def Let_def split: sum.splits)

lemma k8s_doc_cwd: "cwd (snd (fst (k8s_doc fmt mname doc s))) = cwd (snd s)"
  by (auto simp: k8s_doc_def k8s_workload_cwd split: sum.splits)

lemma k8s_except_cwd: "cwd (snd (k8s_except fmt mname e s)) = cwd (snd s)"
  by (cases s) (simp add: k8s_except_def)

lemma k8s_manifest_cwd: "cwd (snd (k8s_manifest fmt manifest s)) = cwd (snd s)"
proof -
  have f: "cwd (snd (fst (for_each (k8s_doc fmt (fname manifest)) docs s))) = cwd (snd s)" for docs
    by (rule for_each_frame[where P = "\<lambda>s. cwd (snd s)"]) (rule k8s_doc_cwd)
  show ?thesis
    unfolding k8s_manifest_def
    by (auto simp: k8s_except_cwd split: prod.splits option.splits
        dest: arg_cong[where f = "\<lambda>r. cwd (snd (fst r))"] simp: f)
qed

lemma validate_kubernetes_cwd: "cwd (snd (validate_kubernetes fmt env path v)) = cwd v"
proof -
  have f: "cwd (snd (foldl (\<lambda>s manifest. k8s_manifest fmt manifest s) s ms)) = cwd (snd s)" for ms s
    using foldl_frame[where P = "\<lambda>s. cwd (snd s)" and step = "\<lambda>s manifest. k8s_manifest fmt manifest s"
        and s = s and xs = ms]
    by (simp add: k8s_manifest_cwd)
  show ?thesis
    by (auto simp: validate_kubernetes_def Let_def split: prod.splits
        dest!: arg_cong[where f = "\<lambda>r. cwd (snd r)"] simp: f)
qed

lemma resolve_below_absolute:
  "prefix ''/'' dir \<Longrightarrow> resolve dir (dir @ ''/'' @ p) = dir @ ''/'' @ p"
  by (cases dir) (auto simp: resolve_def)

lemma resolve_absolute: "prefix ''/'' dir \<Longrightarrow> prefix ''/'' (resolve dir path)"
  by (cases dir) (auto simp: resolve_def)

text \<open>
  Claim C9. When \<^verbatim>\<open>validate_terraform\<close> has found Terraform files and completed, and
  its \<^verbatim>\<open>os.chdir(path)\<close> succeeded, the working directory is the Terraform path from
  then on: \<^verbatim>\<open>validate_ansible\<close> with a relative path does what it does with that path
  below the Terraform directory, it leaves the directory where it is, so does
  \<^verbatim>\<open>validate_kubernetes\<close>, and at the end of the three validations a relative name of
  the JSON output resolves below the Terraform directory as well.
\<close>

theorem terraform_chdir_is_never_undone:
  assumes "validate_terraform fmt env (terraform_path args) v = Inr (Completed cs, v1)"
    and "chdir env (cwd v) (terraform_path args) = None"
    and "prefix ''/'' (cwd v)"
  shows "cwd v1 = resolve (cwd v) (terraform_path args)
    \<and> (\<forall>p. \<not> prefix ''/'' p \<longrightarrow>
          validate_ansible fmt env p v1
            = validate_ansible fmt env (resolve (cwd v) (terraform_path args) @ ''/'' @ p) v1)
    \<and> (\<forall>r2 v2. validate_ansible fmt env (ansible_path args) v1 = Inr (r2, v2) \<longrightarrow>
          cwd v2 = resolve (cwd v) (terraform_path args)
          \<and> (\<forall>p. \<not> prefix ''/'' p \<longrightarrow>
                validate_kubernetes fmt env p v2
                  = validate_kubernetes fmt env (resolve (cwd v) (terraform_path args) @ ''/'' @ p) v2))
    \<and> (\<forall>vf. run_validations fmt env args v = Inr vf \<longrightarrow>
          cwd vf = resolve (cwd v) (terraform_path args)
          \<and> (\<forall>out. \<not> prefix ''/'' out \<longrightarrow>
                resolve (cwd vf) out = resolve (cwd v) (terraform_path args) @ ''/'' @ out))"
proof -
  let ?T = "resolve (cwd v) (terraform_path args)"
  have T: "cwd v1 = ?T" using validate_terraform_cwd[OF assms(1)] assms(2) by simp
  have abs: "prefix ''/'' ?T" using assms(3) by (rule resolve_absolute)
  have rel: "resolve ?T p = ?T @ ''/'' @ p" if "\<not> prefix ''/'' p" for p
    using that by (simp add: resolve_def)
  have same: "resolve w p = resolve w (?T @ ''/'' @ p)" if "\<not> prefix ''/'' p" "w = ?T" for w p
    using that rel[of p] resolve_below_absolute[OF abs, of p] by simp
  have a: "validate_ansible fmt env p v1 = validate_ansible fmt env (?T @ ''/'' @ p) v1"
    if "\<not> prefix ''/'' p" for p
    unfolding validate_ansible_def using same[OF that T] by simp
  have k: "validate_kubernetes fmt env p w = validate_kubernetes fmt env (?T @ ''/'' @ p) w"
    if "\<not> prefix ''/'' p" "cwd w = ?T" for p w
    unfolding validate_kubernetes_def using same[OF that] by simp
  have c2: "cwd v2 = ?T" if "validate_ansible fmt env (ansible_path args) v1 = Inr (r2, v2)" for r2 v2
    using validate_ansible_cwd[OF that] T by simp
  have f: "cwd vf = ?T" if "run_validations fmt env args v = Inr vf" for vf
  proof -
    from that assms(1) obtain r2 v2 where
      2: "validate_ansible fmt env (ansible_path args) v1 = Inr (r2, v2)" and
      3: "vf = snd (validate_kubernetes fmt env (k8s_path args) v2)"
      by (auto simp: run_validations_def split: sum.splits prod.splits)
    show ?thesis using c2[OF 2] 3 by (simp add: validate_kubernetes_cwd)
  qed
  show ?thesis
    using T a k c2 f rel by auto
qed

theorem terraform_chdir_is_never_undone_witness:
  "\<exists>cs v1. validate_terraform fmt0 host_tf_and_playbook ''projects'' vstate0 = Inr (Completed cs, v1)
     \<and> cwd vstate0 = ''/work''
     \<and> cwd v1 = ''/work/projects''
     \<and> validate_ansible fmt0 host_tf_and_playbook ''projects'' v1
         = Inr (Skipped ''No Ansible files found'', v1)
     \<and> validate_ansible fmt0 host_tf_and_playbook ''projects'' vstate0
         \<noteq> Inr (Skipped ''No Ansible files found'', vstate0)"
proof -
  obtain cs v1 where t: "validate_terraform fmt0 host_tf_and_playbook (terraform_path default_args) vstate0
      = Inr (Completed cs, v1)"
    by (simp add: validate_terraform_def host_tf_and_playbook_def host_empty_def default_args_def
        vstate0_def resolve_def tf_remote_state_def tf_provider_versions_def tf_fmt_def
        tf_validate_def mentions_def plain_tf_def bindE_def)
  have c: "chdir host_tf_and_playbook (cwd vstate0) (terraform_path default_args) = None"
    by (simp add: host_tf_and_playbook_def host_empty_def)
  have p: "prefix ''/'' (cwd vstate0)" by (simp add: vstate0_def)
  have r: "resolve (cwd vstate0) (terraform_path default_args) = ''/work/projects''"
    by (simp add: resolve_def vstate0_def default_args_def)
  note th = terraform_chdir_is_never_undone[OF t c p, unfolded r]
  have 1: "cwd v1 = ''/work/projects''" using th by blast
  have "validate_ansible fmt0 host_tf_and_playbook ''projects'' v1
      = validate_ansible fmt0 host_tf_and_playbook (''/work/projects'' @ ''/'' @ ''projects'') v1"
    using th by simp
  also have "\<dots> = Inr (Skipped ''No Ansible files found'', v1)"
    by (simp add: validate_ansible_def host_tf_and_playbook_def host_empty_def resolve_def)
  finally have 2: "validate_ansible fmt0 host_tf_and_playbook ''projects'' v1
      = Inr (Skipped ''No Ansible files found'', v1)" .
  have 3: "validate_ansible fmt0 host_tf_and_playbook ''projects'' vstate0
         \<noteq> Inr (Skipped ''No Ansible files found'', vstate0)"
    by (simp add: validate_ansible_def host_tf_and_playbook_def host_empty_def resolve_def
        vstate0_def ansible_lint_check_def split: prod.splits)
  from t 1 2 3 show ?thesis by (auto simp: default_args_def vstate0_def)
qed

section \<open>The export succeeds\<close>

lemma json_dump_list_findings:
  "\<forall>f\<in>set fs. serializable (resource f) \<Longrightarrow> \<exists>js. json_dump_list (map finding_dict fs) = Inr js"
  by (induction fs) (auto simp: finding_dict_def serializable_def split: sum.splits)

text \<open>
  \<^verbatim>\<open>export_json\<close> does write the file when it can be opened and the resource of every
  finding has a JSON form, as the identifiers that the API returns have.
\<close>

theorem export_json_succeeds:
  assumes "open_w env filename = None"
    and "\<forall>f\<in>set (findings a). serializable (resource f)"
  shows "\<exists>j. export_json env filename a = Inr j"
  using json_dump_list_findings[OF assms(2)] assms(1)
  by (auto simp: export_json_def export_document_def)

theorem export_json_succeeds_witness:
  "open_w aws_empty ''cost-analysis.json'' = None
   \<and> (\<forall>f\<in>set (findings two_findings). serializable (resource f))
   \<and> (\<exists>j. export_json aws_empty ''cost-analysis.json'' two_findings = Inr j)"
proof -
  have 1: "open_w aws_empty ''cost-analysis.json'' = None" by (simp add: aws_empty_def)
  have 2: "\<forall>f\<in>set (findings two_findings). serializable (resource f)"
    by (simp add: two_findings_def stopped_finding_def eip_finding_def serializable_def)
  from export_json_succeeds[OF 1 2] 1 2 show ?thesis by blast
qed

section \<open>The stopped-instance rule\<close>

lemma findings_append_finding [simp]: "findings (append_finding f a) = findings a @ [f]"
  by (simp add: append_finding_def)

lemma not_stopped_issue [simp]:
  "\<not> is_stopped_issue (old_generation_finding i t)"
  "\<not> is_stopped_issue (low_cpu_finding fmt i c)"
  "is_stopped_issue (stopped_finding i)"
  by (simp_all add: is_stopped_issue_def old_generation_finding_def low_cpu_finding_def
      stopped_finding_def Let_def)

lemma ec2_instance_well_formed:
  assumes "well_formed_instance instance"
  shows "snd (ec2_instance fmt env instance a) = None
    \<and> filter is_stopped_issue (findings (fst (ec2_instance fmt env instance a)))
        = filter is_stopped_issue (findings a)
          @ map (\<lambda>i. stopped_finding (instance_id_of i)) (filter is_stopped [instance])"
  using assms
  by (auto simp: well_formed_instance_def ec2_instance_def is_stopped_def instance_id_of_def
      state_name_def Let_def split: sum.splits pyval.splits option.splits)

lemma for_each_ec2_instance:
  assumes "list_all well_formed_instance is"
  shows "snd (for_each (ec2_instance fmt env) is a) = None
    \<and> filter is_stopped_issue (findings (fst (for_each (ec2_instance fmt env) is a)))
        = filter is_stopped_issue (findings a)
          @ map (\<lambda>i. stopped_finding (instance_id_of i)) (filter is_stopped is)"
  using assms
proof (induction "is" arbitrary: a)
  case Nil
  then show ?case by simp
next
  case (Cons i "is")
  obtain a' where b: "ec2_instance fmt env i a = (a', None)"
    using ec2_instance_well_formed[of i fmt env a] Cons.prems
    by (cases "ec2_instance fmt env i a") auto
  have f: "filter is_stopped_issue (findings a')
      = filter is_stopped_issue (findings a)
        @ map (\<lambda>i. stopped_finding (instance_id_of i)) (filter is_stopped [i])"
    using ec2_instance_well_formed[of i fmt env a] Cons.prems b by simp
  show ?case using Cons.IH[of a'] Cons.prems b f by simp
qed

lemma ec2_reservation_well_formed:
  assumes "well_formed_reservation r"
  shows "snd (ec2_reservation fmt env r a) = None
    \<and> filter is_stopped_issue (findings (fst (ec2_reservation fmt env r a)))
        = filter is_stopped_issue (findings a)
          @ map (\<lambda>i. stopped_finding (instance_id_of i)) (filter is_stopped (instances_of r))"
  using assms for_each_ec2_instance
  by (auto simp: well_formed_reservation_def ec2_reservation_def instances_of_def split: sum.splits)

lemma for_each_ec2_reservation:
  assumes "list_all well_formed_reservation rs"
  shows "snd (for_each (ec2_reservation fmt env) rs a) = None
    \<and> filter is_stopped_issue (findings (fst (for_each (ec2_reservation fmt env) rs a)))
        = filter is_stopped_issue (findings a)
          @ map (\<lambda>i. stopped_finding (instance_id_of i))
              (filter is_stopped (concat (map instances_of rs)))"
  using assms
proof (induction rs arbitrary: a)
  case Nil
  then show ?case by simp
next
  case (Cons r rs)
  obtain a' where b: "ec2_reservation fmt env r a = (a', None)"
    using ec2_reservation_well_formed[of r fmt env a] Cons.prems
    by (cases "ec2_reservation fmt env r a") auto
  have f: "filter is_stopped_issue (findings a')
      = filter is_stopped_issue (findings a)
        @ map (\<lambda>i. stopped_finding (instance_id_of i)) (filter is_stopped (instances_of r))"
    using ec2_reservation_well_formed[of r fmt env a] Cons.prems b by simp
  show ?case using Cons.IH[of a'] Cons.prems b f by simp
qed

text \<open>
  Claim C6, as the specification has it, is about every stopped instance descriptor. One
  \<^verbatim>\<open>try\<close> surrounds both loops of \<^verbatim>\<open>analyze_ec2_instances\<close>: a descriptor
  without \<^verbatim>\<open>InstanceType\<close> raises \<^verbatim>\<open>KeyError\<close>, the handler ends the method, and a
  stopped instance that comes after it in the response gets no finding.
\<close>

theorem stopped_instance_counterexample:
  "is_stopped stopped_instance
   \<and> findings (analyze_ec2_instances fmt0 aws_malformed_then_stopped analyzer0) = []"
  by (simp add: is_stopped_def state_name_def stopped_instance_def bindE_def
      analyze_ec2_instances_def aws_malformed_then_stopped_def aws_empty_def
      ec2_reservation_def ec2_instance_def analyzer0_def)

text \<open>
  Claim C6, amended. When \<^verbatim>\<open>describe_instances\<close> answers with a response in which
  every reservation lists its instances and every instance descriptor has an identifier, a
  type that is a string and a state with a name, the findings that
  \<^verbatim>\<open>analyze_ec2_instances\<close> appends with the issue
  \<^verbatim>\<open>Stopped instance still incurring EBS costs\<close> are exactly one for each descriptor whose
  state name is \<^verbatim>\<open>stopped\<close>, in the order of the response; each is the finding of the
  stopped-instance rule for the identifier of its descriptor, with the savings \<^verbatim>\<open>Low\<close>.
\<close>

theorem stopped_instances_of_well_formed_response:
  assumes "describe_instances env = Inr response"
    and "bindE (py_getitem response ''Reservations'') py_iter = Inr reservations"
    and "list_all well_formed_reservation reservations"
  shows "filter is_stopped_issue (findings (analyze_ec2_instances fmt env a))
     = filter is_stopped_issue (findings a)
       @ map (\<lambda>i. stopped_finding (instance_id_of i))
           (filter is_stopped (concat (map instances_of reservations)))
   \<and> (\<forall>i. resource (stopped_finding i) = i
          \<and> issue (stopped_finding i) = ''Stopped instance still incurring EBS costs''
          \<and> potential_savings (stopped_finding i) = ''Low'')"
  using assms for_each_ec2_reservation[OF assms(3), of fmt env a]
  by (simp add: analyze_ec2_instances_def stopped_finding_def)

theorem stopped_instances_of_well_formed_response_witness:
  "findings (analyze_ec2_instances fmt0 aws_stopped analyzer0)
     = [stopped_finding (PStr ''i-0abc'')]
   \<and> filter is_stopped_issue (findings (analyze_ec2_instances fmt0 aws_stopped analyzer0))
     = [stopped_finding (PStr ''i-0abc'')]
   \<and> issue (stopped_finding (PStr ''i-0abc'')) = ''Stopped instance still incurring EBS costs''
   \<and> potential_savings (stopped_finding (PStr ''i-0abc'')) = ''Low''"
proof -
  let ?rs = "[PDict [(''Instances'', PList [stopped_instance])]]"
  have 1: "describe_instances aws_stopped = Inr (PDict [(''Reservations'', PList ?rs)])"
    by (simp add: aws_stopped_def aws_empty_def)
  have 2: "bindE (py_getitem (PDict [(''Reservations'', PList ?rs)]) ''Reservations'') py_iter = Inr ?rs"
    by (simp add: bindE_def)
  have 3: "list_all well_formed_reservation ?rs"
    by (simp add: well_formed_reservation_def well_formed_instance_def stopped_instance_def
        state_name_def bindE_def)
  have 4: "findings (analyze_ec2_instances fmt0 aws_stopped analyzer0)
     = [stopped_finding (PStr ''i-0abc'')]"
    by (simp add: analyze_ec2_instances_def aws_stopped_def aws_empty_def ec2_reservation_def
        ec2_instance_def stopped_instance_def bindE_def analyzer0_def)
  show ?thesis
    using stopped_instances_of_well_formed_response[OF 1 2 3, of fmt0 analyzer0] 4
    by (simp add: analyzer0_def instances_of_def bindE_def is_stopped_def instance_id_of_def
        stopped_instance_def state_name_def)
qed

section \<open>The run of \<^verbatim>\<open>validate_kubernetes\<close> over the manifests\<close>

lemma extends_refl [simp]: "extends s s"
  by (simp add: extends_def)

lemma extends_trans: "extends s t \<Longrightarrow> extends t u \<Longrightarrow> extends s u"
  unfolding extends_def by (auto intro: prefix_order.trans)

lemma extends_append_passed:
  "extends s (c, v) \<Longrightarrow> extends s (c, append_passed k e v)"
  unfolding extends_def by (auto simp: results_append_passed intro: prefix_order.trans)

lemma extends_append_failed:
  "extends s (c, v) \<Longrightarrow> extends s (c, append_failed k e v)"
  unfolding extends_def by (auto simp: results_append_failed intro: prefix_order.trans)

lemma extends_append_warning:
  "extends s (c, v) \<Longrightarrow> extends s (c, append_warning k e v)"
  unfolding extends_def by (auto simp: results_append_warning intro: prefix_order.trans)

lemma extends_append_check:
  "extends s (c, v) \<Longrightarrow> extends s (c @ x, v)"
  unfolding extends_def by (auto intro: prefix_order.trans)

lemmas extends_steps =
  extends_append_passed extends_append_failed extends_append_warning extends_append_check

lemma k8s_workload_extends:
  "extends s (fst (k8s_workload fmt mname kind name doc s))"
proof -
  obtain c v where s: "s = (c, v)" by (cases s)
  have r: "extends (c, v) (c, v)" by simp
  show ?thesis
    unfolding s k8s_workload_def Let_def
    by (auto split: sum.splits intro!: extends_steps r)
qed

lemma k8s_doc_extends: "extends s (fst (k8s_doc fmt mname doc s))"
  by (auto simp: k8s_doc_def k8s_workload_extends split: sum.splits)

lemma k8s_except_extends: "extends s (k8s_except fmt mname e s)"
proof -
  obtain c v where s: "s = (c, v)" by (cases s)
  have r: "extends (c, v) (c, v)" by simp
  show ?thesis unfolding s k8s_except_def by (auto intro!: extends_steps r)
qed

lemma for_each_extends:
  assumes "\<And>x s. extends s (fst (body x s))"
  shows "extends s (fst (for_each body xs s))"
proof (induction xs arbitrary: s)
  case Nil
  then show ?case by simp
next
  case (Cons x xs)
  obtain s' e where b: "body x s = (s', e)" by (cases "body x s")
  have 1: "extends s s'" using assms[of s x] b by simp
  show ?case
  proof (cases e)
    case None
    then show ?thesis using b 1 Cons.IH[of s'] by (auto intro: extends_trans)
  next
    case (Some a)
    then show ?thesis using b 1 by simp
  qed
qed

lemma k8s_manifest_extends: "extends s (k8s_manifest fmt manifest s)"
proof -
  obtain docs raised where l: "safe_load_all manifest = (docs, raised)"
    by (cases "safe_load_all manifest")
  obtain s' e where f: "for_each (k8s_doc fmt (fname manifest)) docs s = (s', e)"
    by (cases "for_each (k8s_doc fmt (fname manifest)) docs s")
  have 1: "extends s s'"
    using for_each_extends[of "k8s_doc fmt (fname manifest)" s docs] f
    by (simp add: k8s_doc_extends)
  show ?thesis
    unfolding k8s_manifest_def l using f 1
    by (auto split: option.splits intro: extends_trans k8s_except_extends)
qed

lemma foldl_manifests_extends:
  "extends s (foldl (\<lambda>s manifest. k8s_manifest fmt manifest s) s ms)"
proof (induction ms arbitrary: s)
  case Nil
  then show ?case by simp
next
  case (Cons m ms)
  show ?case
    using Cons.IH[of "k8s_manifest fmt m s"] k8s_manifest_extends[of s fmt m]
    by (auto intro: extends_trans)
qed

lemma for_each_append:
  "for_each body (pre @ rest) s =
     (case for_each body pre s of
        (s', None) \<Rightarrow> for_each body rest s'
      | (s', Some e) \<Rightarrow> (s', Some e))"
  by (induction pre arbitrary: s) (auto split: prod.splits option.splits)

lemma for_each_no_raise:
  assumes "\<forall>d\<in>set pre. \<forall>s. snd (body d s) = None"
  shows "snd (for_each body pre s) = None"
  using assms
proof (induction pre arbitrary: s)
  case Nil
  then show ?case by simp
next
  case (Cons d pre)
  have "snd (body d s) = None" using Cons.prems by simp
  then obtain s' where b: "body d s = (s', None)"
    by (cases "body d s") simp
  show ?case using b Cons by simp
qed

text \<open>The run reaches a document that no raising document precedes in its manifest.\<close>

lemma validate_kubernetes_reaches:
  assumes ms: "rglob env (resolve (cwd v) path) ''.yaml'' @ rglob env (resolve (cwd v) path) ''.yml''
            = ms1 @ m # ms2"
    and docs: "safe_load_all m = (pre @ doc # post, raised)"
    and pre: "\<forall>d\<in>set pre. \<forall>s. snd (k8s_doc fmt (fname m) d s) = None"
  shows "\<exists>s0 cs' v'. extends ([], v) s0
           \<and> validate_kubernetes fmt env path v = (Completed cs', v')
           \<and> extends (fst (k8s_doc fmt (fname m) doc s0)) (cs', v')"
proof -
  let ?step = "\<lambda>s manifest. k8s_manifest fmt manifest s"
  let ?body = "k8s_doc fmt (fname m)"
  define s1 where "s1 = foldl ?step ([], v) ms1"
  define s0 where "s0 = fst (for_each ?body pre s1)"
  define sm where "sm = k8s_manifest fmt m s1"
  define sf where "sf = foldl ?step sm ms2"
  have e1: "extends ([], v) s1" unfolding s1_def by (rule foldl_manifests_extends)
  have e0: "extends s1 s0" unfolding s0_def
    by (rule for_each_extends) (rule k8s_doc_extends)
  have p: "for_each ?body pre s1 = (s0, None)"
    using for_each_no_raise[OF pre, of s1] by (simp add: s0_def prod_eq_iff)
  obtain sd ed where d: "?body doc s0 = (sd, ed)" by (cases "?body doc s0")
  obtain sp ep where f: "for_each ?body (pre @ doc # post) s1 = (sp, ep)"
    by (cases "for_each ?body (pre @ doc # post) s1")
  have "extends sd sp"
  proof (cases ed)
    case None
    then have "sp = fst (for_each ?body post sd)"
      using f p d by (simp add: for_each_append)
    then show ?thesis using for_each_extends[of ?body sd post] by (simp add: k8s_doc_extends)
  next
    case (Some e)
    then have "sp = sd" using f p d by (simp add: for_each_append)
    then show ?thesis by simp
  qed
  moreover have "extends sp sm"
    unfolding sm_def k8s_manifest_def docs using f
    by (auto split: option.splits intro: k8s_except_extends)
  moreover have "extends sm sf" unfolding sf_def by (rule foldl_manifests_extends)
  ultimately have ef: "extends sd sf" by (blast intro: extends_trans)
  have "validate_kubernetes fmt env path v = (Completed (fst sf), snd sf)"
    by (simp add: validate_kubernetes_def Let_def ms sf_def sm_def s1_def split: prod.splits)
  moreover have "extends ([], v) s0" using e1 e0 by (rule extends_trans)
  ultimately show ?thesis using ef d by (intro exI[of _ s0] exI[of _ "fst sf"] exI[of _ "snd sf"]) simp
qed

section \<open>A workload without containers\<close>




section \<open>The resource limits of a workload\<close>

text \<open>
  Claim C7, as the specification has it, is about every workload document with a container
  that lacks \<^verbatim>\<open>resources.limits\<close>. A container whose \<^verbatim>\<open>resources\<close> is
  \<^verbatim>\<open>None\<close> lacks them, but the membership test on \<^verbatim>\<open>None\<close> raises
  \<^verbatim>\<open>TypeError\<close>; the handler of the manifest reports that the file could not be parsed,
  and no failed entry is recorded.
\<close>

theorem resource_limits_check_counterexample:
  "\<not> has_resource_limits null_resources_container
   \<and> k8s_doc fmt0 ''web.yaml'' (deployment_of [null_resources_container]) ([], vstate0)
       = (([], vstate0), Some TypeError)
   \<and> validate_kubernetes fmt0 host_null_resources ''projects'' vstate0
       = (Completed [(Mark_warn, ''web.yaml: Could not parse: <exception>'')], vstate0)
   \<and> failed (results vstate0 Kubernetes) = []"
  by (simp add: null_resources_container_def deployment_of_def k8s_doc_def doc_name_def
      is_workload_kind_def k8s_workload_def workload_containers_def bindE_def
      container_has_limits_def validate_kubernetes_def host_null_resources_def host_empty_def
      vstate0_def resolve_def k8s_manifest_def web_yaml_def k8s_except_def fmt0_def
      initial_results_def)

text \<open>
  Claim C7, amended. Take a manifest that \<^verbatim>\<open>validate_kubernetes\<close> finds, and in it a
  Deployment, StatefulSet or DaemonSet document that is a mapping, whose name can be read
  (its \<^verbatim>\<open>metadata\<close> is a mapping or absent), whose pod template lists containers that
  are mappings, the \<^verbatim>\<open>resources\<close> of each being a mapping when present, and before
  which no document of the same manifest raises. Then the run reaches the document in a
  state that extends the initial one and checks it without an exception, and the final
  result extends the state after it. If some container has no \<^verbatim>\<open>resources.limits\<close>,
  the check of the document appends the failed entry \<^verbatim>\<open>Add resource limits\<close> and, first
  of its checks, the failing check \<^verbatim>\<open>missing resource limits\<close> for that kind and name,
  and no passed entry for the limits. If every container has \<^verbatim>\<open>resources.limits\<close>, it
  appends the passed entry \<^verbatim>\<open>Resource limits\<close> with the check
  \<^verbatim>\<open>has resource limits\<close>, and no failed entry.
\<close>

theorem resource_limits_recorded:
  assumes "rglob env (resolve (cwd v) path) ''.yaml'' @ rglob env (resolve (cwd v) path) ''.yml''
            = ms1 @ m # ms2"
    and "safe_load_all m = (pre @ PDict kvs # post, raised)"
    and "\<forall>d\<in>set pre. \<forall>s. snd (k8s_doc fmt (fname m) d s) = None"
    and "map_of kvs ''kind'' = Some (PStr k)"
    and "k \<in> {''Deployment'', ''StatefulSet'', ''DaemonSet''}"
    and "doc_name (PDict kvs) = Inr name"
    and "workload_containers (PDict kvs) = Inr (PList cs)"
    and "\<forall>c\<in>set cs. container_mapping c"
  shows "\<exists>c0 v0 c1 v1 cs' v'.
           extends ([], v) (c0, v0)
         \<and> k8s_doc fmt (fname m) (PDict kvs) (c0, v0) = ((c1, v1), None)
         \<and> validate_kubernetes fmt env path v = (Completed cs', v')
         \<and> extends (c1, v1) (cs', v')
         \<and> ((\<exists>c\<in>set cs. \<not> has_resource_limits c) \<longrightarrow>
               failed (results v1 Kubernetes)
                 = failed (results v0 Kubernetes) @ [fname m @ '': Add resource limits'']
             \<and> (\<exists>rest. c1 = c0 @
                   (Mark_fail, fname m @ '': '' @ k @ ''/'' @ py_str fmt name @ '' missing resource limits'') # rest)
             \<and> (\<exists>ps. passed (results v1 Kubernetes) = passed (results v0 Kubernetes) @ ps
                   \<and> fname m @ '': Resource limits'' \<notin> set ps))
         \<and> ((\<forall>c\<in>set cs. has_resource_limits c) \<longrightarrow>
               failed (results v1 Kubernetes) = failed (results v0 Kubernetes)
             \<and> (\<exists>rest. c1 = c0 @
                   (Mark_ok, fname m @ '': '' @ k @ ''/'' @ py_str fmt name @ '' has resource limits'') # rest)
             \<and> (\<exists>ps. passed (results v1 Kubernetes)
                   = passed (results v0 Kubernetes) @ (fname m @ '': Resource limits'') # ps))"
proof -
  from validate_kubernetes_reaches[OF assms(1) assms(2) assms(3)]
  obtain s0 cs' v' where e: "extends ([], v) s0"
    and r: "validate_kubernetes fmt env path v = (Completed cs', v')"
    and f: "extends (fst (k8s_doc fmt (fname m) (PDict kvs) s0)) (cs', v')"
    by blast
  obtain c0 v0 where s0: "s0 = (c0, v0)" by (cases s0)
  obtain c1 v1 e1 where d: "k8s_doc fmt (fname m) (PDict kvs) (c0, v0) = ((c1, v1), e1)"
    by (metis surj_pair)
  note b = k8s_doc_resource_limits[OF assms(4) assms(5) assms(6) assms(7) assms(8) d]
  from b have n: "e1 = None" by blast
  have e': "extends ([], v) (c0, v0)" using e by (simp add: s0)
  have d': "k8s_doc fmt (fname m) (PDict kvs) (c0, v0) = ((c1, v1), None)" using d n by simp
  have f': "extends (c1, v1) (cs', v')" using f by (simp add: s0 d)
  show ?thesis
    by (rule exI[of _ c0], rule exI[of _ v0], rule exI[of _ c1], rule exI[of _ v1],
        rule exI[of _ cs'], rule exI[of _ v'])
       (use e' d' r f' b in blast)
qed

lemma extends_kubernetes_sets:
  assumes "extends (c1, v1) (c2, v2)"
  shows "set c1 \<subseteq> set c2"
    and "set (passed (results v1 Kubernetes)) \<subseteq> set (passed (results v2 Kubernetes))"
    and "set (failed (results v1 Kubernetes)) \<subseteq> set (failed (results v2 Kubernetes))"
    and "set (warnings (results v1 Kubernetes)) \<subseteq> set (warnings (results v2 Kubernetes))"
  using assms by (auto simp: extends_def dest: set_mono_prefix)

theorem resource_limits_recorded_witness:
  "''web.yaml: Add resource limits'' \<in> set (failed (results (snd (validate_kubernetes fmt0
       (host_of_manifest [service_doc, deployment_of [limited_container, bare_container]])
       ''projects'' vstate0)) Kubernetes))
   \<and> ''web.yaml: Resource limits'' \<in> set (passed (results (snd (validate_kubernetes fmt0
       (host_of_manifest [service_doc, deployment_of [limited_container]])
       ''projects'' vstate0)) Kubernetes))
   \<and> failed (results (snd (validate_kubernetes fmt0
       (host_of_manifest [service_doc, deployment_of [limited_container, bare_container]])
       ''projects'' vstate0)) Kubernetes) = [''web.yaml: Add resource limits'']
   \<and> failed (results (snd (validate_kubernetes fmt0
       (host_of_manifest [service_doc, deployment_of [limited_container]])
       ''projects'' vstate0)) Kubernetes) = []"
proof -
  let ?h = "\<lambda>cs. host_of_manifest [service_doc, deployment_of cs]"
  let ?m = "\<lambda>cs. manifest_of [service_doc, deployment_of cs]"
  let ?kvs = "\<lambda>cs. [(''apiVersion'', PStr ''apps/v1''),
            (''kind'', PStr ''Deployment''),
            (''metadata'', PDict [(''name'', PStr ''web'')]),
            (''spec'', PDict [(''template'',
               PDict [(''spec'', PDict [(''containers'', PList cs)])])])]"
  have 1: "rglob (?h cs) (resolve (cwd vstate0) ''projects'') ''.yaml''
           @ rglob (?h cs) (resolve (cwd vstate0) ''projects'') ''.yml'' = [] @ ?m cs # []" for cs
    by (simp add: host_of_manifest_def host_empty_def vstate0_def resolve_def)
  have 2: "safe_load_all (?m cs) = ([service_doc] @ PDict (?kvs cs) # [], None)" for cs
    by (simp add: manifest_of_def deployment_of_def)
  have 3: "\<forall>d\<in>set [service_doc]. \<forall>s. snd (k8s_doc fmt0 (fname (?m cs)) d s) = None" for cs
    by (simp add: service_doc_def k8s_doc_def doc_name_def bindE_def is_workload_kind_def)
  have 4: "map_of (?kvs cs) ''kind'' = Some (PStr ''Deployment'')" for cs by simp
  have 5: "''Deployment'' \<in> {''Deployment'', ''StatefulSet'', ''DaemonSet''}" by simp
  have 6: "doc_name (PDict (?kvs cs)) = Inr (PStr ''web'')" for cs
    by (simp add: doc_name_def bindE_def)
  have 7: "workload_containers (PDict (?kvs cs)) = Inr (PList cs)" for cs
    by (simp add: workload_containers_def bindE_def)
  have 8: "\<forall>c\<in>set [limited_container, bare_container]. container_mapping c"
    and 9: "\<forall>c\<in>set [limited_container]. container_mapping c"
    by (simp_all add: limited_container_def bare_container_def)
  have lacking: "\<exists>c\<in>set [limited_container, bare_container]. \<not> has_resource_limits c"
    and having: "\<forall>c\<in>set [limited_container]. has_resource_limits c"
    by (simp_all add: limited_container_def bare_container_def)
  have n: "fname (?m cs) = ''web.yaml''" for cs by (simp add: manifest_of_def)
  have a: "''web.yaml: Add resource limits'' \<in> set (failed (results (snd (validate_kubernetes fmt0
       (?h [limited_container, bare_container]) ''projects'' vstate0)) Kubernetes))"
    using resource_limits_recorded[OF 1 2 3 4 5 6 7 8] lacking
    by (elim exE conjE) (auto simp: n dest!: extends_kubernetes_sets(3))
  have b: "''web.yaml: Resource limits'' \<in> set (passed (results (snd (validate_kubernetes fmt0
       (?h [limited_container]) ''projects'' vstate0)) Kubernetes))"
    using resource_limits_recorded[OF 1 2 3 4 5 6 7 9] having
    by (elim exE conjE) (auto simp: n dest!: extends_kubernetes_sets(2))
  have c: "failed (results (snd (validate_kubernetes fmt0
       (?h [limited_container, bare_container]) ''projects'' vstate0)) Kubernetes)
        = [''web.yaml: Add resource limits'']"
    by (simp add: validate_kubernetes_def host_of_manifest_def host_empty_def vstate0_def
        resolve_def k8s_manifest_def manifest_of_def service_doc_def deployment_of_def
        k8s_doc_def doc_name_def bindE_def is_workload_kind_def k8s_workload_def
        workload_containers_def py_str_def limited_container_def bare_container_def
        container_has_limits_def container_has_probe_def container_has_security_context_def
        initial_results_def append_passed_def append_warning_def append_failed_def)
  have d: "failed (results (snd (validate_kubernetes fmt0
       (?h [limited_container]) ''projects'' vstate0)) Kubernetes) = []"
    by (simp add: validate_kubernetes_def host_of_manifest_def host_empty_def vstate0_def
        resolve_def k8s_manifest_def manifest_of_def service_doc_def deployment_of_def
        k8s_doc_def doc_name_def bindE_def is_workload_kind_def k8s_workload_def
        workload_containers_def py_str_def limited_container_def
        container_has_limits_def container_has_probe_def container_has_security_context_def
        initial_results_def append_passed_def append_warning_def append_failed_def)
  from a b c d show ?thesis by blast
qed

section \<open>Missing fields\<close>

lemma has_key_map_of: "has_key k (PDict kvs) \<longleftrightarrow> map_of kvs k \<noteq> None"
  by (simp add: map_of_eq_None_iff)

lemma for_each_elastic_ip:
  assumes "list_all is_dict eips"
  shows "for_each elastic_ip eips a =
     (a\<lparr>findings := findings a
          @ map (\<lambda>e. eip_finding (public_ip_of e))
              (filter (\<lambda>e. \<not> has_key ''AssociationId'' e) eips)\<rparr>, None)"
  using assms
proof (induction eips arbitrary: a)
  case Nil
  then show ?case by simp
next
  case (Cons e es)
  then obtain kvs where e: "e = PDict kvs" by (cases e) auto
  have b: "elastic_ip e a =
      (if has_key ''AssociationId'' e then a
       else a\<lparr>findings := findings a @ [eip_finding (public_ip_of e)]\<rparr>, None)"
    by (simp add: e elastic_ip_def public_ip_of_def append_finding_def)
  show ?case using Cons by (simp add: b)
qed

lemma for_each_cut:
  assumes "\<And>s. snd (body d s) \<noteq> None"
  shows "fst (for_each body (pre @ d # post) s) =
           (case for_each body pre s of (s', None) \<Rightarrow> fst (body d s') | (s', Some e) \<Rightarrow> s')"
    and "snd (for_each body (pre @ d # post) s) \<noteq> None"
proof -
  obtain s' e where p: "for_each body pre s = (s', e)" by (cases "for_each body pre s")
  obtain s'' e' where b: "body d s' = (s'', e')" by (cases "body d s'")
  have "e' \<noteq> None" using assms[of s'] b by simp
  then obtain x where x: "e' = Some x" by auto
  show "fst (for_each body (pre @ d # post) s) =
           (case for_each body pre s of (s', None) \<Rightarrow> fst (body d s') | (s', Some e) \<Rightarrow> s')"
    by (cases e) (simp_all add: for_each_append p b x)
  show "snd (for_each body (pre @ d # post) s) \<noteq> None"
    by (cases e) (simp_all add: for_each_append p b x)
qed

lemma for_each_cut_unchanged:
  assumes "\<And>s. fst (body d s) = s \<and> snd (body d s) \<noteq> None"
  shows "fst (for_each body (pre @ d # post) s) = fst (for_each body pre s)"
  using for_each_cut(1)[of body d pre post s] assms
  by (auto split: prod.splits option.splits)

lemma ec2_instance_lacks:
  assumes "lacks_a_key [''InstanceId'', ''InstanceType'', ''State''] d"
  shows "fst (ec2_instance fmt env d a) = a \<and> snd (ec2_instance fmt env d a) \<noteq> None"
proof -
  from assms obtain kvs where d: "d = PDict kvs" by (cases d) (auto simp: lacks_a_key_def)
  from assms have "map_of kvs ''InstanceId'' = None \<or> map_of kvs ''InstanceType'' = None
      \<or> map_of kvs ''State'' = None"
    by (auto simp: lacks_a_key_def d map_of_eq_None_iff)
  then show ?thesis
    by (auto simp: ec2_instance_def d bindE_def split: option.splits sum.splits)
qed

lemma ebs_volume_lacks:
  assumes "lacks_a_key [''VolumeId'', ''VolumeType'', ''Size'', ''State''] d"
  shows "fst (ebs_volume fmt d a) = a \<and> snd (ebs_volume fmt d a) \<noteq> None"
proof -
  from assms obtain kvs where d: "d = PDict kvs" by (cases d) (auto simp: lacks_a_key_def)
  from assms have "map_of kvs ''VolumeId'' = None \<or> map_of kvs ''VolumeType'' = None
      \<or> map_of kvs ''Size'' = None \<or> map_of kvs ''State'' = None"
    by (auto simp: lacks_a_key_def d map_of_eq_None_iff)
  then show ?thesis
    by (auto simp: ebs_volume_def d split: option.splits sum.splits)
qed

lemma snapshot_step_lacks:
  assumes "lacks_a_key [''SnapshotId'', ''StartTime'', ''VolumeSize''] d"
  shows "fst (snapshot_step fmt t d a) = a \<and> snd (snapshot_step fmt t d a) \<noteq> None"
proof -
  from assms obtain kvs where d: "d = PDict kvs" by (cases d) (auto simp: lacks_a_key_def)
  from assms have "map_of kvs ''SnapshotId'' = None \<or> map_of kvs ''StartTime'' = None
      \<or> map_of kvs ''VolumeSize'' = None"
    by (auto simp: lacks_a_key_def d map_of_eq_None_iff)
  then show ?thesis
    by (auto simp: snapshot_step_def d bindE_def split: option.splits sum.splits)
qed

lemma analyze_ebs_volumes_cut:
  assumes "describe_volumes env = Inr response"
    and "bindE (py_getitem response ''Volumes'') py_iter = Inr (pre @ d # post)"
    and "lacks_a_key [''VolumeId'', ''VolumeType'', ''Size'', ''State''] d"
  shows "findings (analyze_ebs_volumes fmt env a)
     = findings (analyze_ebs_volumes fmt
         (env\<lparr>describe_volumes := Inr (PDict [(''Volumes'', PList pre)])\<rparr>) a)"
  using assms for_each_cut_unchanged[of "ebs_volume fmt" d pre post a, OF ebs_volume_lacks[OF assms(3)]]
  by (simp add: analyze_ebs_volumes_def bindE_def)

lemma analyze_snapshots_cut:
  assumes "describe_snapshots env = Inr response"
    and "bindE (py_getitem response ''Snapshots'') py_iter = Inr (pre @ d # post)"
    and "lacks_a_key [''SnapshotId'', ''StartTime'', ''VolumeSize''] d"
  shows "findings (analyze_snapshots fmt env a)
     = findings (analyze_snapshots fmt
         (env\<lparr>describe_snapshots := Inr (PDict [(''Snapshots'', PList pre)])\<rparr>) a)"
  using assms for_each_cut_unchanged[of "snapshot_step fmt (now env - days_90)" d pre post a,
      OF snapshot_step_lacks[OF assms(3)]]
  by (simp add: analyze_snapshots_def bindE_def Let_def)

lemma analyze_ec2_instances_cut:
  assumes "describe_instances env = Inr response"
    and "bindE (py_getitem response ''Reservations'') py_iter = Inr (rpre @ r # rpost)"
    and "bindE (py_getitem r ''Instances'') py_iter = Inr (ipre @ d # ipost)"
    and "lacks_a_key [''InstanceId'', ''InstanceType'', ''State''] d"
  shows "findings (analyze_ec2_instances fmt env a)
     = findings (analyze_ec2_instances fmt
         (env\<lparr>describe_instances := Inr (PDict [(''Reservations'',
              PList (rpre @ [PDict [(''Instances'', PList ipre)]]))])\<rparr>) a)"
proof -
  let ?inst = "ec2_instance fmt env"
  let ?env' = "env\<lparr>describe_instances := Inr (PDict [(''Reservations'',
              PList (rpre @ [PDict [(''Instances'', PList ipre)]]))])\<rparr>"
  have same_cpu: "get_average_cpu fmt ?env' = get_average_cpu fmt env"
    by (rule ext) (simp add: get_average_cpu_def)
  have same_body: "ec2_instance fmt ?env' = ec2_instance fmt env"
    by (rule ext)+ (simp only: ec2_instance_def same_cpu)
  have same_res: "ec2_reservation fmt ?env' = ec2_reservation fmt env"
    by (rule ext)+ (simp only: ec2_reservation_def same_body)
  have l: "\<And>s. fst (?inst d s) = s \<and> snd (?inst d s) \<noteq> None"
    using ec2_instance_lacks[OF assms(4)] by blast
  have r1: "fst (ec2_reservation fmt env r s) = fst (for_each ?inst ipre s)" for s
    using for_each_cut_unchanged[of ?inst d ipre ipost s, OF l]
    by (simp add: ec2_reservation_def assms(3))
  have r2: "snd (ec2_reservation fmt env r s) \<noteq> None" for s
    using for_each_cut(2)[of ?inst d ipre ipost s] l
    by (simp add: ec2_reservation_def assms(3))
  let ?r' = "PDict [(''Instances'', PList ipre)]"
  have r': "ec2_reservation fmt env ?r' s = for_each ?inst ipre s" for s
    by (simp add: ec2_reservation_def bindE_def)
  let ?res = "ec2_reservation fmt env"
  obtain s' e where p: "for_each ?res rpre a = (s', e)" by (cases "for_each ?res rpre a")
  have lhs: "fst (for_each ?res (rpre @ r # rpost) a)
      = (case e of None \<Rightarrow> fst (for_each ?inst ipre s') | Some x \<Rightarrow> s')"
    using for_each_cut(1)[of ?res r rpre rpost a] r2 r1 p by (simp split: option.splits)
  have rhs: "fst (for_each ?res (rpre @ [?r']) a)
      = (case e of None \<Rightarrow> fst (for_each ?inst ipre s') | Some x \<Rightarrow> s')"
    by (cases "for_each ?inst ipre s'"; cases e)
       (auto simp: for_each_append p r' split: option.splits)
  show ?thesis
    using assms(1,2) lhs rhs
    by (simp add: analyze_ec2_instances_def bindE_def same_res)
qed

end
